theory Spec2Isabelle
  imports Complex_Main "HOL-Library.Sublist" "HOL-Library.Multiset"
    "HOL-Library.Char_ord" "HOL-Library.List_Lexorder"
begin

section \<open>Strings\<close>

text \<open>
  A Python \<open>str\<close> is modelled as a \<^typ>\<open>string\<close>: a list of 8-bit characters, read as
  the code points U+0000 to U+00FF. On this range \<open>str.lower()\<close> maps one character to
  one character: the letters A-Z and the Latin-1 capitals U+00C0 to U+00DE (without the
  multiplication sign U+00D7) move up by 32, every other character stays.
\<close>

definition char_lower :: "char \<Rightarrow> char" where
  "char_lower c =
     (let n = (of_char c :: nat)
      in if (65 \<le> n \<and> n \<le> 90) \<or> (192 \<le> n \<and> n \<le> 222 \<and> n \<noteq> 215)
         then char_of (n + 32) else c)"

definition lower :: "string \<Rightarrow> string" where
  "lower s = map char_lower s"

text \<open>The operator \<open>sub in s\<close> on strings: \<open>sub\<close> occurs in \<open>s\<close> as a contiguous run.\<close>

fun str_in :: "string \<Rightarrow> string \<Rightarrow> bool" where
  "str_in sub [] = (sub = [])"
| "str_in sub (c # cs) = (prefix sub (c # cs) \<or> str_in sub cs)"

section \<open>The wallet name database\<close>

text \<open>The list literal of the module, in the order it is written.\<close>

definition KNOWN_WALLET_NAMES_literal :: "string list" where
  "KNOWN_WALLET_NAMES_literal =
    [''Trust Wallet'', ''MetaMask'', ''Coinbase Wallet'', ''Ledger'', ''Trezor'', ''Exodus'',
     ''Phantom'', ''Rainbow'', ''SafePal'', ''Argent'', ''Zerion'', ''Rabby'',
     ''Binance'', ''Coinbase'', ''Kraken'', ''Kucoin'', ''Bybit'', ''OKX'', ''Huobi'',
     ''Gate.io'', ''Bitfinex'', ''Gemini'',
     ''Ledger Nano'', ''Trezor One'', ''Trezor Model T'', ''KeepKey'', ''BitBox'',
     ''CoolWallet'',
     ''Main'', ''Trading'', ''Savings'', ''Cold Storage'', ''Hot Wallet'', ''DeFi'', ''NFT'',
     ''Gaming'', ''Staking'', ''Airdrop'', ''Personal'', ''Business'', ''Family'',
     ''Friends'']"

text \<open>
  \<open>list.sort(key=len, reverse=True)\<close>: a stable sort by descending key. Python reverses
  the list, sorts it stably by ascending key and reverses it again, so that entries of
  equal key keep the order they had.
\<close>

definition sort_len_reverse :: "string list \<Rightarrow> string list" where
  "sort_len_reverse xs = rev (sort_key length (rev xs))"

definition KNOWN_WALLET_NAMES :: "string list" where
  "KNOWN_WALLET_NAMES = sort_len_reverse KNOWN_WALLET_NAMES_literal"

section \<open>The label classifier\<close>

text \<open>
  The character classes of the three patterns, on the code points U+0000 to U+00FF:
  \<open>[A-Za-z0-9]\<close>, \<open>\s\<close> (what \<open>str.isspace\<close> accepts) and \<open>\w\<close> (what
  \<open>str.isalnum\<close> accepts, and the underscore).
\<close>

definition is_alnum_ascii :: "char \<Rightarrow> bool" where
  "is_alnum_ascii c =
     (let n = (of_char c :: nat)
      in (65 \<le> n \<and> n \<le> 90) \<or> (97 \<le> n \<and> n \<le> 122) \<or> (48 \<le> n \<and> n \<le> 57))"

definition is_space :: "char \<Rightarrow> bool" where
  "is_space c =
     (let n = (of_char c :: nat)
      in (9 \<le> n \<and> n \<le> 13) \<or> (28 \<le> n \<and> n \<le> 32) \<or> n = 133 \<or> n = 160)"

definition is_word :: "char \<Rightarrow> bool" where
  "is_word c =
     (let n = (of_char c :: nat)
      in (48 \<le> n \<and> n \<le> 57) \<or> (65 \<le> n \<and> n \<le> 90) \<or> n = 95 \<or> (97 \<le> n \<and> n \<le> 122)
         \<or> n = 170 \<or> n = 178 \<or> n = 179 \<or> n = 181 \<or> n = 185 \<or> n = 186
         \<or> (188 \<le> n \<and> n \<le> 190) \<or> (192 \<le> n \<and> n \<le> 214) \<or> (216 \<le> n \<and> n \<le> 246)
         \<or> 248 \<le> n)"

text \<open>
  \<open>re.match\<close> of a pattern \<open>^([A-Za-z0-9]+)\s+\<close>\<^emph>\<open>rest\<close>: the group takes the longest run
  of letters and digits at the start of the label (a shorter run would be followed by a
  letter or digit, not by white space), \<open>\s+\<close> takes the whole run of white space after it
  (none of the three continuations can start with white space), and \<open>rest\<close> decides on
  the remainder. The result is group 1, or \<open>None\<close> when there is no match.
\<close>

definition match_token :: "(string \<Rightarrow> bool) \<Rightarrow> string \<Rightarrow> string option" where
  "match_token rest label =
     (let tok = takeWhile is_alnum_ascii label;
          after_tok = dropWhile is_alnum_ascii label;
          after_ws = dropWhile is_space after_tok
      in if tok \<noteq> [] \<and> after_ws \<noteq> after_tok \<and> rest after_ws then Some tok else None)"

text \<open>The continuation \<open>\w+$\<close>: word characters up to the end of the label, or up to a
  newline that ends the label.\<close>

definition word_to_end :: "string \<Rightarrow> bool" where
  "word_to_end s =
     (let r = dropWhile is_word s in r \<noteq> s \<and> (r = [] \<or> r = [CHR 0x0A]))"

definition patterns :: "(string \<Rightarrow> string option) list" where
  "patterns =
     [match_token (prefix ''Wallet''),
      match_token (prefix ''Exchange''),
      match_token word_to_end]"

fun first_match :: "(string \<Rightarrow> string option) list \<Rightarrow> string \<Rightarrow> string option" where
  "first_match [] label = None"
| "first_match (p # ps) label =
     (case p label of Some g \<Rightarrow> Some g | None \<Rightarrow> first_match ps label)"

definition extract_wallet_group :: "string \<Rightarrow> string option" where
  "extract_wallet_group label =
     (let label_lower = lower label
      in case find (\<lambda>wallet_name. str_in (lower wallet_name) label_lower) KNOWN_WALLET_NAMES of
           Some wallet_name \<Rightarrow> Some wallet_name
         | None \<Rightarrow> first_match patterns label)"

text \<open>The test of the loop over the reference names: the lower-cased name occurs in the
  lower-cased label.\<close>

definition name_in_label :: "string \<Rightarrow> string \<Rightarrow> bool" where
  "name_in_label wallet_name label = str_in (lower wallet_name) (lower label)"

text \<open>Some reference name occurs in the label: the first loop of the classifier returns.\<close>

definition known_name_in :: "string \<Rightarrow> bool" where
  "known_name_in label = list_ex (\<lambda>wallet_name. name_in_label wallet_name label) KNOWN_WALLET_NAMES"

text \<open>
  What the three regular expressions accept, stated on the label itself: the label is a
  non-empty run of ASCII letters and digits (the captured group), then a non-empty run of
  white space, then a remainder that \<open>rest\<close> accepts.
\<close>

definition token_then :: "(string \<Rightarrow> bool) \<Rightarrow> string \<Rightarrow> string \<Rightarrow> bool" where
  "token_then rest label tok =
     (\<exists>ws r. label = tok @ ws @ r \<and> tok \<noteq> [] \<and> list_all is_alnum_ascii tok
         \<and> ws \<noteq> [] \<and> list_all is_space ws \<and> rest r)"

text \<open>\<open>\w+$\<close>: a non-empty run of word characters that is the whole remainder, or the
  whole remainder but a final newline.\<close>

definition word_run_to_end :: "string \<Rightarrow> bool" where
  "word_run_to_end s = (\<exists>w. w \<noteq> [] \<and> list_all is_word w \<and> (s = w \<or> s = w @ [CHR 0x0A]))"

text \<open>
  The whitespace-separated tokens of a label, as \<open>str.split()\<close> gives them: the maximal
  runs of characters that are not white space. The classifier does not compute them; they
  state what "a label of exactly two whitespace-separated tokens" is.
\<close>

fun tokens_from :: "string \<Rightarrow> string \<Rightarrow> string list" where
  "tokens_from cur [] = (if cur = [] then [] else [cur])"
| "tokens_from cur (c # cs) =
     (if is_space c then (if cur = [] then tokens_from [] cs else cur # tokens_from [] cs)
      else tokens_from (cur @ [c]) cs)"

definition whitespace_tokens :: "string \<Rightarrow> string list" where
  "whitespace_tokens label = tokens_from [] label"

section \<open>The grouping engine\<close>

text \<open>A row of the table \<open>wallets\<close>:
  \<open>(id, user_id, network, address, label, last_tx, created_at)\<close>.\<close>

record wallet =
  w_id :: int
  w_user_id :: int
  w_network :: string
  w_address :: string
  w_label :: string
  w_last_tx :: "string option"
  w_created_at :: string

text \<open>
  A \<open>dict\<close> from group names to lists of wallets is an association list with one entry
  per key, in the order of insertion.
\<close>

type_synonym 'v dict = "(string \<times> 'v) list"

text \<open>\<open>if k not in d: d[k] = []\<close> followed by \<open>d[k].append(v)\<close>.\<close>

fun dict_append :: "'a list dict \<Rightarrow> string \<Rightarrow> 'a \<Rightarrow> 'a list dict" where
  "dict_append [] k v = [(k, [v])]"
| "dict_append ((k', vs) # d) k v =
     (if k' = k then (k', vs @ [v]) # d else (k', vs) # dict_append d k v)"

text \<open>\<open>d[k] = v\<close>: an existing key keeps its place and takes the new value.\<close>

fun dict_set :: "'v dict \<Rightarrow> string \<Rightarrow> 'v \<Rightarrow> 'v dict" where
  "dict_set [] k v = [(k, v)]"
| "dict_set ((k', v') # d) k v =
     (if k' = k then (k', v) # d else (k', v') # dict_set d k v)"

text \<open>
  The loop of \<open>group_wallets_by_name\<close> over the wallets, on the pair of \<open>groups\<close> and
  \<open>ungrouped\<close>. The test \<open>if group_name\<close> fails for \<open>None\<close> and for the empty string.
\<close>

fun group_loop :: "wallet list \<Rightarrow> wallet list dict \<times> wallet list
    \<Rightarrow> wallet list dict \<times> wallet list" where
  "group_loop [] (groups, ungrouped) = (groups, ungrouped)"
| "group_loop (w # ws) (groups, ungrouped) =
     (case extract_wallet_group (w_label w) of
        Some group_name \<Rightarrow>
          if group_name \<noteq> [] then group_loop ws (dict_append groups group_name w, ungrouped)
          else group_loop ws (groups, ungrouped @ [w])
      | None \<Rightarrow> group_loop ws (groups, ungrouped @ [w]))"

definition group_wallets_by_name :: "wallet list \<Rightarrow> wallet list dict" where
  "group_wallets_by_name wallets =
     (let (groups, ungrouped) = group_loop wallets ([], [])
      in if ungrouped \<noteq> [] then dict_set groups ''_ungrouped'' ungrouped else groups)"

text \<open>A record whose label classifies to no group.\<close>

definition unclassified :: "wallet \<Rightarrow> bool" where
  "unclassified w = (extract_wallet_group (w_label w) = None)"

text \<open>
  The records of the end-to-end example of the specification (two "Trust Wallet" labels
  and "Savings"), and one record more whose label matches nothing.
\<close>

definition example_wallets :: "wallet list" where
  "example_wallets =
     [\<lparr>w_id = 1, w_user_id = 7, w_network = ''bnb'', w_address = ''0xAAAAAAAAAAAA1111'',
        w_label = ''Trust Wallet BNB'', w_last_tx = None, w_created_at = ''2024-01-01''\<rparr>,
      \<lparr>w_id = 2, w_user_id = 7, w_network = ''ethereum'', w_address = ''0xBBBBBBBBBBBB2222'',
        w_label = ''Trust Wallet ETH'', w_last_tx = None, w_created_at = ''2024-01-02''\<rparr>,
      \<lparr>w_id = 3, w_user_id = 7, w_network = ''ethereum'', w_address = ''0xCCCCCCCCCCCC3333'',
        w_label = ''Savings'', w_last_tx = None, w_created_at = ''2024-01-03''\<rparr>,
      \<lparr>w_id = 4, w_user_id = 7, w_network = ''tron'', w_address = ''TDDDDDDDDDDDD4444'',
        w_label = ''randomlabel'', w_last_tx = None, w_created_at = ''2024-01-04''\<rparr>]"

section \<open>Python values, the runtime and the network\<close>

text \<open>
  A decoded JSON payload. The type \<open>'n\<close> is the type of Python numbers (\<open>int\<close> and
  \<open>float\<close>); a JSON object is the \<open>dict\<close> it decodes to.
\<close>

datatype 'n json =
    JNull
  | JBool bool
  | JNum 'n
  | JStr string
  | JList "'n json list"
  | JDict "(string \<times> 'n json) list"

text \<open>
  The builtins of the Python runtime that the module calls on numbers and on strings are
  parameters of the model; nothing is assumed about them. A result \<open>None\<close> is a raised
  exception.
  \<^item> \<open>py_num\<close>: the number a numeric literal of the source denotes (\<open>0\<close>, \<open>1e18\<close>, ...);
  \<^item> \<open>py_int\<close>: \<open>int(x)\<close>;
  \<^item> \<open>py_truediv\<close>: \<open>x / c\<close> for a decoded value \<open>x\<close> and a number \<open>c\<close>;
  \<^item> \<open>py_mul\<close>: \<open>b * x\<close> for a float \<open>b\<close> and a decoded value \<open>x\<close>;
  \<^item> \<open>py_add\<close>: \<open>a + b\<close> on numbers;
  \<^item> \<open>py_format\<close>: \<open>format(x, spec)\<close> of a number, as in \<open>f"{x:,.2f}"\<close>;
  \<^item> \<open>py_upper\<close>, \<open>py_title\<close>: \<open>str.upper\<close> and \<open>str.title\<close>;
  \<^item> \<open>py_scale\<close>: \<open>int(base + (i / height) * span)\<close> of the gradient, in float arithmetic.
\<close>

record 'n runtime =
  py_num :: "string \<Rightarrow> 'n"
  py_int :: "'n json \<Rightarrow> 'n option"
  py_truediv :: "'n json \<Rightarrow> 'n \<Rightarrow> 'n option"
  py_mul :: "'n \<Rightarrow> 'n json \<Rightarrow> 'n option"
  py_add :: "'n \<Rightarrow> 'n \<Rightarrow> 'n"
  py_format :: "string \<Rightarrow> 'n \<Rightarrow> string"
  py_upper :: "string \<Rightarrow> string"
  py_title :: "string \<Rightarrow> string"
  py_scale :: "int \<Rightarrow> nat \<Rightarrow> nat \<Rightarrow> int \<Rightarrow> int"

text \<open>
  \<open>session.get(url, headers=..., timeout=...)\<close> is a function of the state \<open>'s\<close> of the
  outside world that returns the reply and the next state. The reply is an exception
  (a timeout, a connection error), or a response with its status and with what
  \<open>await r.json()\<close> gives: the decoded payload, or \<open>None\<close> when decoding raises.
\<close>

record request =
  req_url :: string
  req_headers :: "(string \<times> string) list"

datatype 'n reply = Raised | Response int "'n json option"

type_synonym ('n, 's) session = "'s \<Rightarrow> request \<Rightarrow> 'n reply \<times> 's"

text \<open>\<open>d.get(k, default)\<close> on a decoded value: an exception unless the value is a dict.\<close>

definition json_get :: "'n json \<Rightarrow> string \<Rightarrow> 'n json \<Rightarrow> 'n json option" where
  "json_get js k dflt =
     (case js of
        JDict d \<Rightarrow> (case map_of d k of Some v \<Rightarrow> Some v | None \<Rightarrow> Some dflt)
      | _ \<Rightarrow> None)"

text \<open>\<open>d[k]\<close> on a decoded value: an exception unless the value is a dict that has the key.\<close>

definition json_item :: "'n json \<Rightarrow> string \<Rightarrow> 'n json option" where
  "json_item js k = (case js of JDict d \<Rightarrow> map_of d k | _ \<Rightarrow> None)"

section \<open>Prices and balances\<close>

definition coin_ids :: "(string \<times> string) list" where
  "coin_ids =
     [(''ETH'', ''ethereum''), (''TRX'', ''tron''), (''SOL'', ''solana''),
      (''BNB'', ''binancecoin''), (''MATIC'', ''matic-network''), (''TON'', ''the-open-network'')]"

text \<open>
  \<open>get_simple_price\<close>. The bare \<open>except\<close> catches whatever the request, the decoding
  and the two \<open>get\<close> calls raise; then, and after a status other than 200, the price is
  the number \<open>0\<close>. The price of a good reply is whatever value stands at \<open>usd\<close>.
\<close>

definition get_simple_price ::
    "'n runtime \<Rightarrow> ('n, 's) session \<Rightarrow> string \<Rightarrow> 's \<Rightarrow> 'n json \<times> 's" where
  "get_simple_price rt get symbol s =
     (let coin_id = (case map_of coin_ids (py_upper rt symbol) of
                       Some i \<Rightarrow> i | None \<Rightarrow> lower symbol);
          url = ''https://api.coingecko.com/api/v3/simple/price?ids='' @ coin_id
                  @ ''&vs_currencies=usd'';
          (r, s') = get s \<lparr>req_url = url, req_headers = []\<rparr>
      in case r of
           Raised \<Rightarrow> (JNum (py_num rt ''0''), s')
         | Response status body \<Rightarrow>
             if status = 200 then
               (case Option.bind body (\<lambda>js. Option.bind (json_get js coin_id (JDict []))
                         (\<lambda>entry. json_get entry ''usd'' (JNum (py_num rt ''0'')))) of
                  Some price \<Rightarrow> (price, s')
                | None \<Rightarrow> (JNum (py_num rt ''0''), s'))
             else (JNum (py_num rt ''0''), s'))"

text \<open>The dict that \<open>get_wallet_balance\<close> returns.\<close>

record 'n balance =
  native_amount :: 'n
  usd_value :: 'n
  token_symbol :: string

text \<open>
  How the \<open>try\<close> block of \<open>get_wallet_balance\<close> ends: at a \<open>return\<close>, at its end
  without a \<open>return\<close> (no branch of the network taken, a status other than 200, a
  payload status other than "1"), or in an exception.
\<close>

datatype 'a outcome = Return 'a | Fell_through | Exception

text \<open>
  \<open>async with session.get(url, ...) as r: if r.status == 200: js = await r.json()\<close>,
  the part that the three branches share.
\<close>

definition fetch_json ::
    "('n, 's) session \<Rightarrow> request \<Rightarrow> 's \<Rightarrow> 'n json outcome \<times> 's" where
  "fetch_json get req s =
     (let (r, s') = get s req
      in case r of
           Raised \<Rightarrow> (Exception, s')
         | Response status body \<Rightarrow>
             if status = 200 then
               (case body of Some js \<Rightarrow> (Return js, s') | None \<Rightarrow> (Exception, s'))
             else (Fell_through, s'))"

text \<open>
  \<open>price = await get_simple_price(symbol, session)\<close> and the \<open>return\<close> of the dict
  with \<open>balance * price\<close>, for a balance that has been computed.
\<close>

definition priced ::
    "'n runtime \<Rightarrow> ('n, 's) session \<Rightarrow> string \<Rightarrow> 'n \<Rightarrow> 's \<Rightarrow> 'n balance outcome \<times> 's" where
  "priced rt get symbol bal s =
     (let (price, s') = get_simple_price rt get symbol s
      in case py_mul rt bal price of
           Some usd \<Rightarrow>
             (Return \<lparr>native_amount = bal, usd_value = usd, token_symbol = symbol\<rparr>, s')
         | None \<Rightarrow> (Exception, s'))"

text \<open>The body of the \<open>try\<close> block.\<close>

definition balance_try ::
    "'n runtime \<Rightarrow> ('n, 's) session \<Rightarrow> string \<Rightarrow> string \<Rightarrow> string \<Rightarrow> string \<Rightarrow> 's
      \<Rightarrow> 'n balance outcome \<times> 's" where
  "balance_try rt get addr net etherscan_key solscan_key s =
     (if net = ''ethereum'' \<or> prefix ''ethereum_'' net then
        if etherscan_key = [] then
          (Return \<lparr>native_amount = py_num rt ''0'', usd_value = py_num rt ''0'',
                   token_symbol = ''ETH''\<rparr>, s)
        else
          let chain_id = ''1'';
              url = ''https://api.etherscan.io/v2/api?chainId='' @ chain_id
                      @ ''&module=account&action=balance&address='' @ addr
                      @ ''&apikey='' @ etherscan_key
          in (case fetch_json get \<lparr>req_url = url, req_headers = []\<rparr> s of
                (Return js, s1) \<Rightarrow>
                  (case json_get js ''status'' JNull of
                     None \<Rightarrow> (Exception, s1)
                   | Some st \<Rightarrow>
                       if st = JStr ''1'' then
                         (case Option.bind (json_item js ''result'') (\<lambda>res.
                                 Option.bind (py_int rt res) (\<lambda>n.
                                   py_truediv rt (JNum n) (py_num rt ''1e18''))) of
                            Some bal \<Rightarrow> priced rt get ''ETH'' bal s1
                          | None \<Rightarrow> (Exception, s1))
                       else (Fell_through, s1))
              | (Fell_through, s1) \<Rightarrow> (Fell_through, s1)
              | (Exception, s1) \<Rightarrow> (Exception, s1))
      else if net = ''tron'' then
        let url = ''https://apilist.tronscanapi.com/api/account?address='' @ addr
        in (case fetch_json get \<lparr>req_url = url, req_headers = []\<rparr> s of
              (Return js, s1) \<Rightarrow>
                (case Option.bind (json_get js ''balance'' (JNum (py_num rt ''0''))) (\<lambda>b.
                        py_truediv rt b (py_num rt ''1_000_000'')) of
                   Some bal \<Rightarrow> priced rt get ''TRX'' bal s1
                 | None \<Rightarrow> (Exception, s1))
            | (Fell_through, s1) \<Rightarrow> (Fell_through, s1)
            | (Exception, s1) \<Rightarrow> (Exception, s1))
      else if net = ''solana'' then
        if solscan_key = [] then
          (Return \<lparr>native_amount = py_num rt ''0'', usd_value = py_num rt ''0'',
                   token_symbol = ''SOL''\<rparr>, s)
        else
          let url = ''https://public-api.solscan.io/account/'' @ addr;
              headers = [(''token'', solscan_key)]
          in (case fetch_json get \<lparr>req_url = url, req_headers = headers\<rparr> s of
                (Return js, s1) \<Rightarrow>
                  (case Option.bind (json_get js ''lamports'' (JNum (py_num rt ''0''))) (\<lambda>b.
                          py_truediv rt b (py_num rt ''1e9'')) of
                     Some bal \<Rightarrow> priced rt get ''SOL'' bal s1
                   | None \<Rightarrow> (Exception, s1))
              | (Fell_through, s1) \<Rightarrow> (Fell_through, s1)
              | (Exception, s1) \<Rightarrow> (Exception, s1))
      else (Fell_through, s))"

text \<open>
  \<open>get_wallet_balance\<close>: what the \<open>try\<close> block returns; after an exception (caught and
  printed) and after the block ends without a \<open>return\<close>, the last line of the function
  returns the zero result with the symbol "?". The output of \<open>print\<close> is left out, and so
  is the cancellation of the running task, which is no \<open>Exception\<close> and which
  \<open>except Exception\<close> lets through.
\<close>

definition get_wallet_balance ::
    "'n runtime \<Rightarrow> ('n, 's) session \<Rightarrow> string \<Rightarrow> string \<Rightarrow> string \<Rightarrow> string \<Rightarrow> 's
      \<Rightarrow> 'n balance \<times> 's" where
  "get_wallet_balance rt get addr net etherscan_key solscan_key s =
     (case balance_try rt get addr net etherscan_key solscan_key s of
        (Return b, s') \<Rightarrow> (b, s')
      | (_, s') \<Rightarrow>
          (\<lparr>native_amount = py_num rt ''0'', usd_value = py_num rt ''0'',
            token_symbol = ''?''\<rparr>, s'))"

section \<open>The aggregation loop\<close>

definition display_names :: "(string \<times> string) list" where
  "display_names =
     [(''ethereum'', ''Ethereum''), (''polygon'', ''Polygon''), (''arbitrum'', ''Arbitrum''),
      (''tron'', ''TRON''), (''solana'', ''Solana''), (''ton'', ''TON''), (''bnb'', ''BNB Chain'')]"

definition get_network_display :: "'n runtime \<Rightarrow> string \<Rightarrow> string" where
  "get_network_display rt net =
     (case map_of display_names net of Some d \<Rightarrow> d | None \<Rightarrow> py_title rt net)"

text \<open>The dicts appended to \<open>holdings_list\<close> and to \<open>wallet_details\<close>.\<close>

record 'n holding =
  h_network :: string
  h_amount :: 'n
  h_symbol :: string
  h_usd :: 'n

record 'n detail =
  d_label :: string
  d_network :: string
  d_address :: string
  d_amount :: 'n
  d_symbol :: string
  d_usd :: 'n

text \<open>The three variables of the loop "Fetch balances" of \<open>cb_wallet_group_details\<close>.\<close>

record 'n summary =
  total_usd :: 'n
  holdings_list :: "'n holding list"
  wallet_details :: "'n detail list"

text \<open>\<open>all_networks.get(network, get_network_display(network))\<close>.\<close>

definition network_display_of :: "'n runtime \<Rightarrow> (string \<times> string) list \<Rightarrow> string \<Rightarrow> string" where
  "network_display_of rt all_networks net =
     (case map_of all_networks net of Some d \<Rightarrow> d | None \<Rightarrow> get_network_display rt net)"

text \<open>One round of the loop, and the loop.\<close>

definition add_wallet ::
    "'n runtime \<Rightarrow> (string \<times> string) list \<Rightarrow> wallet \<Rightarrow> 'n balance \<Rightarrow> 'n summary \<Rightarrow> 'n summary" where
  "add_wallet rt all_networks w bal acc =
     (let native = native_amount bal;
          usd = usd_value bal;
          symbol = token_symbol bal;
          network_display = network_display_of rt all_networks (w_network w)
      in \<lparr>total_usd = py_add rt (total_usd acc) usd,
          holdings_list = holdings_list acc @
            [\<lparr>h_network = network_display, h_amount = native, h_symbol = symbol, h_usd = usd\<rparr>],
          wallet_details = wallet_details acc @
            [\<lparr>d_label = w_label w, d_network = network_display, d_address = w_address w,
              d_amount = native, d_symbol = symbol, d_usd = usd\<rparr>]\<rparr>)"

fun fetch_balances ::
    "'n runtime \<Rightarrow> ('n, 's) session \<Rightarrow> string \<Rightarrow> string \<Rightarrow> (string \<times> string) list
      \<Rightarrow> wallet list \<Rightarrow> 'n summary \<Rightarrow> 's \<Rightarrow> 'n summary \<times> 's" where
  "fetch_balances rt get etherscan_key solscan_key all_networks [] acc s = (acc, s)"
| "fetch_balances rt get etherscan_key solscan_key all_networks (w # ws) acc s =
     (let (bal, s') =
            get_wallet_balance rt get (w_address w) (w_network w) etherscan_key solscan_key s
      in fetch_balances rt get etherscan_key solscan_key all_networks ws
           (add_wallet rt all_networks w bal acc) s')"

definition aggregate ::
    "'n runtime \<Rightarrow> ('n, 's) session \<Rightarrow> string \<Rightarrow> string \<Rightarrow> (string \<times> string) list
      \<Rightarrow> wallet list \<Rightarrow> 's \<Rightarrow> 'n summary \<times> 's" where
  "aggregate rt get etherscan_key solscan_key all_networks selected_wallets s =
     fetch_balances rt get etherscan_key solscan_key all_networks selected_wallets
       \<lparr>total_usd = py_num rt ''0'', holdings_list = [], wallet_details = []\<rparr> s"

text \<open>
  The results of the calls of \<open>get_wallet_balance\<close> that the loop makes, one for each
  wallet, each call in the state that the call before it has left.
\<close>

fun balances ::
    "'n runtime \<Rightarrow> ('n, 's) session \<Rightarrow> string \<Rightarrow> string \<Rightarrow> wallet list \<Rightarrow> 's
      \<Rightarrow> 'n balance list" where
  "balances rt get etherscan_key solscan_key [] s = []"
| "balances rt get etherscan_key solscan_key (w # ws) s =
     (let (bal, s') =
            get_wallet_balance rt get (w_address w) (w_network w) etherscan_key solscan_key s
      in bal # balances rt get etherscan_key solscan_key ws s')"



text \<open>A session whose replies do not depend on the state of the world: a mocked,
  deterministic lookup.\<close>

definition deterministic :: "('n, 's) session \<Rightarrow> bool" where
  "deterministic get = (\<forall>s s' req. fst (get s req) = fst (get s' req))"

section \<open>An instance of the runtime and of the network, for examples\<close>

text \<open>\<open>str(n)\<close> of an integer that is not negative: its decimal digits.\<close>

function show_digits :: "int \<Rightarrow> string" where
  "show_digits n =
     (if n < 10 then [char_of (48 + n)]
      else show_digits (n div 10) @ [char_of (48 + n mod 10)])"
  by pat_completeness auto
termination
  by (relation "measure nat") auto

declare show_digits.simps [simp del]

definition show_nat :: "nat \<Rightarrow> string" where
  "show_nat n = show_digits (int n)"

text \<open>
  Numbers are rationals and the arithmetic is exact. \<open>int\<close> reads a string of ASCII
  digits and truncates a number; a number is printed with a fixed count of decimals
  (thousands are not separated); \<open>upper\<close> and \<open>title\<close> act on the ASCII letters.
\<close>

fun digits_value :: "int \<Rightarrow> string \<Rightarrow> int option" where
  "digits_value acc [] = Some acc"
| "digits_value acc (c # cs) =
     (let n = (of_char c :: int)
      in if 48 \<le> n \<and> n \<le> 57 then digits_value (10 * acc + (n - 48)) cs else None)"

definition exact_int :: "rat json \<Rightarrow> rat option" where
  "exact_int x =
     (case x of
        JNum q \<Rightarrow> Some (of_int (if 0 \<le> q then \<lfloor>q\<rfloor> else \<lceil>q\<rceil>))
      | JBool b \<Rightarrow> Some (if b then 1 else 0)
      | JStr str \<Rightarrow> (if str = [] then None else map_option of_int (digits_value 0 str))
      | _ \<Rightarrow> None)"

definition exact_number :: "rat json \<Rightarrow> rat option" where
  "exact_number x =
     (case x of JNum q \<Rightarrow> Some q | JBool b \<Rightarrow> Some (if b then 1 else 0) | _ \<Rightarrow> None)"

definition exact_literal :: "string \<Rightarrow> rat" where
  "exact_literal lit =
     (if lit = ''1e18'' then 1000000000000000000
      else if lit = ''1e9'' then 1000000000
      else if lit = ''1_000_000'' then 1000000
      else 0)"

definition show_fixed :: "nat \<Rightarrow> rat \<Rightarrow> string" where
  "show_fixed k q =
     (let m = \<lfloor>\<bar>q\<bar> * 10 ^ k + 1 / 2\<rfloor>;
          frac = show_digits (m mod 10 ^ k)
      in (if q < 0 then ''-'' else []) @ show_digits (m div 10 ^ k)
           @ (if k = 0 then [] else ''.'' @ replicate (k - length frac) (CHR ''0'') @ frac))"

definition ascii_upper :: "string \<Rightarrow> string" where
  "ascii_upper str =
     map (\<lambda>c. let n = (of_char c :: nat) in if 97 \<le> n \<and> n \<le> 122 then char_of (n - 32) else c) str"

fun ascii_title_from :: "bool \<Rightarrow> string \<Rightarrow> string" where
  "ascii_title_from prev_cased [] = []"
| "ascii_title_from prev_cased (c # cs) =
     (let n = (of_char c :: nat);
          is_upper = (65 \<le> n \<and> n \<le> 90);
          is_lower = (97 \<le> n \<and> n \<le> 122)
      in (if is_lower \<and> \<not> prev_cased then char_of (n - 32)
          else if is_upper \<and> prev_cased then char_of (n + 32)
          else c) # ascii_title_from (is_upper \<or> is_lower) cs)"

definition exact_runtime :: "rat runtime" where
  "exact_runtime =
     \<lparr>py_num = exact_literal,
      py_int = exact_int,
      py_truediv = (\<lambda>x c. if c = 0 then None else map_option (\<lambda>q. q / c) (exact_number x)),
      py_mul = (\<lambda>b x. map_option (\<lambda>q. b * q) (exact_number x)),
      py_add = (\<lambda>a b. a + b),
      py_format = (\<lambda>spec q. if spec = ''.6f'' then show_fixed 6 q else show_fixed 2 q),
      py_upper = ascii_upper,
      py_title = ascii_title_from False,
      py_scale = (\<lambda>base i height span. base + \<lfloor>(of_nat i / of_nat height :: rat) * of_int span\<rfloor>)\<rparr>"

text \<open>
  A network in which the balance service of the EVM chains reports 0.25 ETH for every
  address, the price service quotes ETH at 2000 USD, the TRON service answers with
  status 503, and every other request times out. The state of the world counts the
  requests. The first session always reaches this network; the second reaches it for
  its first request only.
\<close>

definition example_reply :: "string \<Rightarrow> rat reply" where
  "example_reply url =
     (if prefix ''https://api.etherscan.io/'' url then
        Response 200 (Some (JDict [(''status'', JStr ''1''), (''message'', JStr ''OK''),
                                   (''result'', JStr ''250000000000000000'')]))
      else if prefix ''https://api.coingecko.com/'' url then
        Response 200 (Some (JDict [(''ethereum'', JDict [(''usd'', JNum 2000)])]))
      else if prefix ''https://apilist.tronscanapi.com/'' url then Response 503 None
      else Raised)"

definition example_session :: "(rat, nat) session" where
  "example_session s req = (example_reply (req_url req), Suc s)"


section \<open>The requests of a lookup\<close>



section \<open>The card renderer\<close>

text \<open>
  What the function draws: the image of \<open>Image.new('RGB', (width, height), color)\<close> and
  the calls of \<open>draw.rectangle\<close> and \<open>draw.text\<close> on it, in order. A rectangle has its
  two corners, its fill and, when given, its outline with the width of the line; a text
  has its position, its fill and a font of the type \<open>'f\<close>.
\<close>

datatype colour = Hex string | RGB int int int

datatype 'f draw_op =
    Rectangle "int \<times> int" "int \<times> int" colour "(colour \<times> int) option"
  | Text "int \<times> int" string colour 'f

record 'f canvas =
  c_width :: int
  c_height :: int
  c_colour :: colour
  c_ops :: "'f draw_op list"

text \<open>
  The imaging library is a parameter of the model:
  \<^item> \<open>truetype\<close>: \<open>ImageFont.truetype(path, size)\<close>, \<open>None\<close> when it raises (the font
    file is missing);
  \<^item> \<open>load_default\<close>: \<open>ImageFont.load_default()\<close>;
  \<^item> \<open>textbbox\<close>: \<open>draw.textbbox((0, 0), text, font=font)\<close>;
  \<^item> \<open>completes\<close>: whether creating the image, drawing on it and saving it as PNG goes
    through without an exception.
\<close>

record 'f pil =
  truetype :: "string \<Rightarrow> nat \<Rightarrow> 'f option"
  load_default :: 'f
  textbbox :: "string \<Rightarrow> 'f \<Rightarrow> int \<times> int \<times> int \<times> int"
  completes :: "'f canvas \<Rightarrow> bool"

text \<open>The \<open>BytesIO\<close> that is returned: its name, and the image saved in it.\<close>

record 'f bytesio =
  bio_name :: string
  bio_image :: "'f canvas"

text \<open>The four fonts: title, subtitle, item, small.\<close>

record 'f fonts =
  title_font :: 'f
  subtitle_font :: 'f
  item_font :: 'f
  small_font :: 'f

text \<open>
  The \<open>try\<close> block that loads the fonts: when one of the four calls raises, the
  \<open>except\<close> branch sets all four fonts to the default font.
\<close>

definition load_fonts :: "'f pil \<Rightarrow> 'f fonts" where
  "load_fonts lib =
     (case (truetype lib ''/usr/share/fonts/truetype/dejavu/DejaVuSans-Bold.ttf'' 48,
            truetype lib ''/usr/share/fonts/truetype/dejavu/DejaVuSans.ttf'' 32,
            truetype lib ''/usr/share/fonts/truetype/dejavu/DejaVuSans.ttf'' 24,
            truetype lib ''/usr/share/fonts/truetype/dejavu/DejaVuSans.ttf'' 20) of
        (Some t, Some su, Some it, Some sm) \<Rightarrow>
          \<lparr>title_font = t, subtitle_font = su, item_font = it, small_font = sm\<rparr>
      | _ \<Rightarrow>
          \<lparr>title_font = load_default lib, subtitle_font = load_default lib,
           item_font = load_default lib, small_font = load_default lib\<rparr>)"

text \<open>The loop "Gradient background": one rectangle for each row of the image.\<close>

definition gradient_ops :: "'n runtime \<Rightarrow> int \<Rightarrow> nat \<Rightarrow> 'f draw_op list" where
  "gradient_ops rt width height =
     map (\<lambda>i. Rectangle (0, int i) (width, int i + 1)
                (RGB (py_scale rt 26 i height 20) (py_scale rt 26 i height 30)
                     (py_scale rt 46 i height 40)) None)
       [0..<height]"

text \<open>The header: the box, the wallet name and the total value.\<close>

definition header_ops :: "'n runtime \<Rightarrow> 'f fonts \<Rightarrow> int \<Rightarrow> string \<Rightarrow> 'n \<Rightarrow> 'f draw_op list" where
  "header_ops rt fs width wallet_name total_value =
     (let total_text = ''$'' @ py_format rt '',.2f'' total_value
      in [Rectangle (20, 20) (width - 20, 180) (Hex ''#16213e'') (Some (Hex ''#0f3460'', 3)),
          Text (40, 40) wallet_name (Hex ''#ffffff'') (title_font fs),
          Text (40, 100) ''Total Value'' (Hex ''#94a3b8'') (small_font fs),
          Text (40, 125) total_text (Hex ''#4ade80'') (subtitle_font fs)])"

text \<open>The loop over the holdings, with \<open>y_offset\<close>: four calls for each holding.\<close>

fun holding_rows ::
    "'n runtime \<Rightarrow> 'f pil \<Rightarrow> 'f fonts \<Rightarrow> int \<Rightarrow> int \<Rightarrow> 'n holding list \<Rightarrow> 'f draw_op list" where
  "holding_rows rt lib fs width y_offset [] = []"
| "holding_rows rt lib fs width y_offset (h # hs) =
     (let network_text = h_network h;
          amount_text = py_format rt ''.6f'' (h_amount h) @ '' '' @ h_symbol h;
          usd_text = ''$'' @ py_format rt '',.2f'' (h_usd h);
          (x0, y0, x1, y1) = textbbox lib usd_text (item_font fs);
          text_width = x1 - x0
      in [Rectangle (40, y_offset) (width - 40, y_offset + 50) (Hex ''#16213e'')
            (Some (Hex ''#0f3460'', 2)),
          Text (60, y_offset + 5) network_text (Hex ''#e2e8f0'') (item_font fs),
          Text (60, y_offset + 30) amount_text (Hex ''#94a3b8'') (small_font fs),
          Text (width - 60 - text_width, y_offset + 15) usd_text (Hex ''#4ade80'') (item_font fs)]
         @ holding_rows rt lib fs width (y_offset + 60) hs)"

text \<open>The holdings section: the branch \<open>if holdings\<close> and its \<open>else\<close>.\<close>

definition holdings_ops ::
    "'n runtime \<Rightarrow> 'f pil \<Rightarrow> 'f fonts \<Rightarrow> int \<Rightarrow> 'n holding list \<Rightarrow> 'f draw_op list" where
  "holdings_ops rt lib fs width holdings =
     (let y_offset = 220
      in if holdings \<noteq> [] then
           Text (40, y_offset) ''Holdings'' (Hex ''#94a3b8'') (small_font fs)
             # holding_rows rt lib fs width (y_offset + 40) holdings
         else [Text (40, y_offset) ''No holdings data'' (Hex ''#94a3b8'') (item_font fs)])"

definition footer_ops :: "'f fonts \<Rightarrow> int \<Rightarrow> 'f draw_op list" where
  "footer_ops fs height =
     [Text (40, height - 40) ''CryptoAlert Monitor'' (Hex ''#64748b'') (small_font fs)]"

text \<open>The image with everything drawn on it.\<close>

definition wallet_card ::
    "'n runtime \<Rightarrow> 'f pil \<Rightarrow> string \<Rightarrow> 'n \<Rightarrow> 'n holding list \<Rightarrow> 'f canvas" where
  "wallet_card rt lib wallet_name total_value holdings =
     (let width = 800;
          base_height = 400;
          item_height = 60;
          height = base_height + length holdings * item_height;
          fs = load_fonts lib
      in \<lparr>c_width = width, c_height = int height, c_colour = Hex ''#1a1a2e'',
          c_ops = gradient_ops rt width height
                  @ header_ops rt fs width wallet_name total_value
                  @ holdings_ops rt lib fs width holdings
                  @ footer_ops fs (int height)\<rparr>)"

text \<open>
  \<open>generate_wallet_image\<close>: the \<open>BytesIO\<close> with the card, named after the wallet group
  with every space replaced by an underscore; \<open>None\<close> when the library raises.
\<close>

definition generate_wallet_image ::
    "'n runtime \<Rightarrow> 'f pil \<Rightarrow> string \<Rightarrow> 'n \<Rightarrow> 'n holding list \<Rightarrow> 'f bytesio option" where
  "generate_wallet_image rt lib wallet_name total_value holdings =
     (let img = wallet_card rt lib wallet_name total_value holdings
      in if completes lib img then
           Some \<lparr>bio_name = map (\<lambda>c. if c = CHR '' '' then CHR ''_'' else c) wallet_name @ ''.png'',
                 bio_image = img\<rparr>
         else None)"

text \<open>
  An imaging library for examples: a font is the name of its file and its size, the
  default font is "default", a character is 10 units wide, and only DejaVuSans.ttf is
  installed, so that the bold font does not load.
\<close>

definition example_pil :: "(string \<times> nat) pil" where
  "example_pil =
     \<lparr>truetype = (\<lambda>path size.
         if path = ''/usr/share/fonts/truetype/dejavu/DejaVuSans.ttf''
         then Some (path, size) else None),
      load_default = (''default'', 10),
      textbbox = (\<lambda>text font. (0, 0, 10 * int (length text), 12)),
      completes = (\<lambda>img. True)\<rparr>"

section \<open>The handlers\<close>

text \<open>
  \<open>s.replace(old, new)\<close>: the occurrences of \<open>old\<close> in \<open>s\<close> are replaced from the left,
  each search starting after the occurrence before it; for the empty \<open>old\<close>, \<open>new\<close>
  goes before every character and at the end.
\<close>

function str_replace :: "string \<Rightarrow> string \<Rightarrow> string \<Rightarrow> string" where
  "str_replace old new s =
     (if old = [] then new @ concat (map (\<lambda>c. c # new) s)
      else if s = [] then []
      else if prefix old s then new @ str_replace old new (drop (length old) s)
      else hd s # str_replace old new (tl s))"
  by pat_completeness auto
termination
  by (relation "measure (\<lambda>(old, new, s). length s)") auto

declare str_replace.simps [simp del]

text \<open>
  The literal texts of the messages hold characters beyond U+00FF (emoji, a bullet, a
  box-drawing line). They are written as their UTF-8 bytes; nothing in the module looks
  into them.
\<close>

definition newline :: string where "newline = [CHR 0x0A]"
definition briefcase :: string where "briefcase = [CHR 0xF0, CHR 0x9F, CHR 0x92, CHR 0xBC]"
definition small_diamond :: string where "small_diamond = [CHR 0xF0, CHR 0x9F, CHR 0x94, CHR 0xB9]"
definition bar_chart :: string where "bar_chart = [CHR 0xF0, CHR 0x9F, CHR 0x93, CHR 0x8A]"
definition hourglass :: string where "hourglass = [CHR 0xE2, CHR 0x8F, CHR 0xB3]"
definition money_bag :: string where "money_bag = [CHR 0xF0, CHR 0x9F, CHR 0x92, CHR 0xB0]"
definition heavy_line :: string where "heavy_line = [CHR 0xE2, CHR 0x94, CHR 0x81]"
definition globe :: string where "globe = [CHR 0xF0, CHR 0x9F, CHR 0x8C, CHR 0x90]"
definition round_pin :: string where "round_pin = [CHR 0xF0, CHR 0x9F, CHR 0x93, CHR 0x8D]"
definition gem :: string where "gem = [CHR 0xF0, CHR 0x9F, CHR 0x92, CHR 0x8E]"
definition banknote :: string where "banknote = [CHR 0xF0, CHR 0x9F, CHR 0x92, CHR 0xB5]"
definition back_arrow :: string where "back_arrow = [CHR 0xF0, CHR 0x9F, CHR 0x94, CHR 0x99]"
definition refresh_arrows :: string where "refresh_arrows = [CHR 0xF0, CHR 0x9F, CHR 0x94, CHR 0x84]"
definition empty_mailbox :: string where "empty_mailbox = [CHR 0xF0, CHR 0x9F, CHR 0x93, CHR 0xAD]"
definition light_bulb :: string where "light_bulb = [CHR 0xF0, CHR 0x9F, CHR 0x92, CHR 0xA1]"
definition bullet :: string where "bullet = [CHR 0xE2, CHR 0x80, CHR 0xA2]"

text \<open>An inline button, and the calls that a handler makes on the chat transport:
  \<^item> \<open>m.answer(text, reply_markup=...)\<close>;
  \<^item> \<open>c.answer()\<close>, and \<open>c.answer(text, show_alert=True)\<close>;
  \<^item> \<open>edit_text(text, reply_markup=...)\<close> on the message of the callback;
  \<^item> \<open>c.message.answer_photo(photo=..., caption=...)\<close>.\<close>

record button =
  btn_text :: string
  callback_data :: string

datatype 'f action =
    Answer_message string "button list list option"
  | Answer_callback "string option"
  | Edit_text string "button list list option"
  | Answer_photo "'f bytesio" string

text \<open>
  The keyboard of \<open>cmd_wallet_groups\<close> (and of \<open>cb_back_to_groups\<close>): the groups sorted by
  name with the ungrouped bucket last, one button for each, and the button
  "View All Wallets".
\<close>

definition sorted_groups :: "wallet list dict \<Rightarrow> wallet list dict" where
  "sorted_groups groups =
     sort_key fst (filter (\<lambda>(k, v). k \<noteq> ''_ungrouped'') groups)
     @ (case map_of groups ''_ungrouped'' of
          Some v \<Rightarrow> [(''_ungrouped'', v)] | None \<Rightarrow> [])"

definition group_button :: "string \<times> wallet list \<Rightarrow> button" where
  "group_button g =
     (let (group_name, group_wallets) = g;
          display_name = (if group_name = ''_ungrouped'' then small_diamond @ '' Other Wallets''
                          else briefcase @ '' '' @ group_name);
          count = length group_wallets
      in \<lparr>btn_text = display_name @ '' ('' @ show_nat count @ '')'',
          callback_data = ''wgroup_'' @ group_name\<rparr>)"

definition groups_keyboard :: "wallet list dict \<Rightarrow> button list list" where
  "groups_keyboard groups =
     map (\<lambda>g. [group_button g]) (sorted_groups groups)
     @ [[\<lparr>btn_text = bar_chart @ '' View All Wallets'', callback_data = ''wgroup_all''\<rparr>]]"

definition cmd_wallet_groups :: "wallet list \<Rightarrow> 'f action list" where
  "cmd_wallet_groups wallets =
     (if wallets = [] then
        [Answer_message
           (empty_mailbox @ '' No wallets added yet.'' @ newline @ newline
            @ ''Use /addaddress to add wallets for monitoring.'' @ newline @ newline
            @ light_bulb @ '' **Tip:** Name your wallets like:'' @ newline
            @ bullet @ '' Trust Wallet BNB'' @ newline
            @ bullet @ '' Trust Wallet ETH'' @ newline
            @ bullet @ '' MetaMask Polygon'' @ newline @ newline
            @ ''The bot will automatically group them!'') None]
      else
        let groups = group_wallets_by_name wallets;
            text = briefcase @ '' **Your Wallet Groups**'' @ newline @ newline
                   @ ''Total wallets: '' @ show_nat (length wallets) @ newline
                   @ ''Groups: '' @ show_nat (length groups) @ newline @ newline
                   @ ''Select a group to view details:''
        in [Answer_message text (Some (groups_keyboard groups))])"

text \<open>
  \<open>cb_wallet_group_details\<close>, first part: the group name of the callback data, the
  selected wallets and the display name.
\<close>

definition select_group :: "string \<Rightarrow> wallet list \<Rightarrow> string \<times> wallet list \<times> string" where
  "select_group data wallets =
     (let group_name = str_replace ''wgroup_'' [] data
      in if group_name = ''all'' then (group_name, wallets, ''All Wallets'')
         else
           let groups = group_wallets_by_name wallets;
               selected_wallets = (case map_of groups group_name of Some ws \<Rightarrow> ws | None \<Rightarrow> []);
               display_name = (if group_name \<noteq> ''_ungrouped'' then group_name
                               else ''Other Wallets'')
           in (group_name, selected_wallets, display_name))"

text \<open>The text report, built after the image.\<close>

definition detail_text :: "'n runtime \<Rightarrow> 'n detail \<Rightarrow> string" where
  "detail_text rt d =
     small_diamond @ '' **'' @ d_label d @ ''**'' @ newline
     @ ''   '' @ globe @ '' '' @ d_network d @ newline
     @ ''   '' @ round_pin @ '' `'' @ take 10 (d_address d) @ ''...''
         @ drop (length (d_address d) - 8) (d_address d) @ ''`'' @ newline
     @ ''   '' @ gem @ '' '' @ py_format rt ''.6f'' (d_amount d) @ '' '' @ d_symbol d @ newline
     @ ''   '' @ banknote @ '' $'' @ py_format rt '',.2f'' (d_usd d) @ newline @ newline"

definition report_text :: "'n runtime \<Rightarrow> string \<Rightarrow> 'n summary \<Rightarrow> string" where
  "report_text rt display_name sm =
     briefcase @ '' **'' @ display_name @ ''**'' @ newline
     @ concat (replicate 36 heavy_line) @ newline @ newline
     @ money_bag @ '' **Total Value:** $'' @ py_format rt '',.2f'' (total_usd sm) @ newline
     @ bar_chart @ '' **Networks:** '' @ show_nat (length (holdings_list sm)) @ newline @ newline
     @ ''**Holdings:**'' @ newline @ newline
     @ concat (map (detail_text rt) (wallet_details sm))"

definition details_keyboard :: "string \<Rightarrow> button list list" where
  "details_keyboard group_name =
     [[\<lparr>btn_text = back_arrow @ '' Back to Groups'', callback_data = ''wgroup_back''\<rparr>],
      [\<lparr>btn_text = refresh_arrows @ '' Refresh'', callback_data = ''wgroup_'' @ group_name\<rparr>]]"

definition loading_text :: "string \<Rightarrow> nat \<Rightarrow> string" where
  "loading_text display_name n =
     hourglass @ '' Loading '' @ display_name @ ''...'' @ newline
     @ ''Fetching balances for '' @ show_nat n @ '' wallet(s)...''"

definition photo_caption :: "'n runtime \<Rightarrow> string \<Rightarrow> 'n summary \<Rightarrow> string" where
  "photo_caption rt display_name sm =
     briefcase @ '' **'' @ display_name @ ''**'' @ newline @ newline
     @ money_bag @ '' Total Value: **$'' @ py_format rt '',.2f'' (total_usd sm) @ ''**'' @ newline
     @ bar_chart @ '' Networks: '' @ show_nat (length (holdings_list sm))"

text \<open>
  \<open>cb_wallet_group_details\<close> on the callback data and the wallets of the user: the calls
  on the chat transport, in order, and the state of the world afterwards. The \<open>try\<close>
  block around the image sends the photo; when \<open>generate_wallet_image\<close> raises, the
  \<open>except\<close> branch prints the error and the handler goes on.
\<close>

definition cb_wallet_group_details ::
    "'n runtime \<Rightarrow> 'f pil \<Rightarrow> ('n, 's) session \<Rightarrow> string \<Rightarrow> wallet list \<Rightarrow> string \<Rightarrow> string
      \<Rightarrow> (string \<times> string) list \<Rightarrow> 's \<Rightarrow> 'f action list \<times> 's" where
  "cb_wallet_group_details rt lib get data wallets etherscan_key solscan_key all_networks s =
     (let (group_name, selected_wallets, display_name) = select_group data wallets
      in if selected_wallets = [] then
           ([Answer_callback (Some ''No wallets in this group'')], s)
         else
           let loading = Edit_text (loading_text display_name (length selected_wallets)) None;
               (sm, s') = aggregate rt get etherscan_key solscan_key all_networks
                            selected_wallets s;
               photo = (case generate_wallet_image rt lib display_name (total_usd sm)
                               (holdings_list sm) of
                          Some image_bio \<Rightarrow> [Answer_photo image_bio (photo_caption rt display_name sm)]
                        | None \<Rightarrow> [])
           in (loading # photo
                 @ [Edit_text (report_text rt display_name sm) (Some (details_keyboard group_name)),
                    Answer_callback None],
               s'))"


definition broken_pil :: "(string \<times> nat) pil" where
  "broken_pil = example_pil\<lparr>completes := (\<lambda>img. False)\<rparr>"

section \<open>Properties of the classifier\<close>

subsection \<open>Reference names\<close>

lemma str_in_sublist: "str_in sub s = sublist sub s"
  by (induction s) (auto simp: sublist_Cons_right)

lemma set_sort_len_reverse: "set (sort_len_reverse xs) = set xs"
  by (simp add: sort_len_reverse_def)

lemma filter_sort_len_reverse:
  "filter (\<lambda>y. length y = k) (sort_len_reverse xs) = filter (\<lambda>y. length y = k) xs"
  by (simp add: sort_len_reverse_def rev_filter [symmetric] sort_key_stable)

lemma sort_len_reverse_descending:
  assumes "sort_len_reverse xs = pre @ n # post" and "m \<in> set post"
  shows "length m \<le> length n"
proof -
  have "sorted (map length (rev (sort_len_reverse xs)))"
    by (simp add: sort_len_reverse_def)
  then have "sorted (map length (rev post) @ length n # map length (rev pre))"
    using assms(1) by simp
  then show ?thesis
    using assms(2) by (auto simp: sorted_append)
qed

lemma find_split:
  "find P xs = Some n \<Longrightarrow> \<exists>pre post. xs = pre @ n # post \<and> P n \<and> (\<forall>x\<in>set pre. \<not> P x)"
proof (induction xs)
  case Nil
  then show ?case by simp
next
  case (Cons a xs)
  show ?case
  proof (cases "P a")
    case True
    with Cons.prems have "a = n" by simp
    with True have "a # xs = [] @ n # xs \<and> P n \<and> (\<forall>x\<in>set []. \<not> P x)" by simp
    then show ?thesis by blast
  next
    case False
    with Cons.prems have "find P xs = Some n" by simp
    from Cons.IH [OF this] obtain pre post
      where "xs = pre @ n # post" "P n" "\<forall>x\<in>set pre. \<not> P x" by blast
    with False have "a # xs = (a # pre) @ n # post \<and> P n \<and> (\<forall>x\<in>set (a # pre). \<not> P x)"
      by simp
    then show ?thesis by blast
  qed
qed

lemma find_conj_filter: "find (\<lambda>x. P x \<and> Q x) xs = find P (filter Q xs)"
  by (induction xs) auto

lemma find_append_none: "(\<forall>x\<in>set pre. \<not> P x) \<Longrightarrow> find P (pre @ ys) = find P ys"
  by (induction pre) auto

lemma find_None_iff_set: "(find P xs = None) = (\<forall>x\<in>set xs. \<not> P x)"
  by (induction xs) auto

text \<open>
  C1. A label in which at least one reference name occurs, compared case-insensitively, is
  classified to a reference name in its canonical spelling that occurs in the label; no
  reference name that occurs in the label is longer, and among the reference names of
  that length that occur in the label it is the first of the list as it is written.
\<close>

theorem extract_wallet_group_known_name:
  assumes "\<exists>n\<in>set KNOWN_WALLET_NAMES_literal. name_in_label n label"
  shows "\<exists>n. extract_wallet_group label = Some n
           \<and> n \<in> set KNOWN_WALLET_NAMES_literal
           \<and> name_in_label n label
           \<and> (\<forall>m\<in>set KNOWN_WALLET_NAMES_literal. name_in_label m label \<longrightarrow> length m \<le> length n)
           \<and> find (\<lambda>m. name_in_label m label \<and> length m = length n) KNOWN_WALLET_NAMES_literal
               = Some n"
proof -
  let ?L = KNOWN_WALLET_NAMES_literal
  let ?P = "\<lambda>m. name_in_label m label"
  have "\<exists>n\<in>set KNOWN_WALLET_NAMES. ?P n"
    using assms by (simp add: KNOWN_WALLET_NAMES_def set_sort_len_reverse)
  then have "find ?P KNOWN_WALLET_NAMES \<noteq> None"
    by (simp add: find_None_iff_set)
  then obtain n where found: "find ?P KNOWN_WALLET_NAMES = Some n" by blast
  from find_split [OF this] obtain pre post
    where split: "KNOWN_WALLET_NAMES = pre @ n # post" and Pn: "?P n"
      and pre: "\<forall>x\<in>set pre. \<not> ?P x" by blast
  have res: "extract_wallet_group label = Some n"
    using found by (simp add: extract_wallet_group_def name_in_label_def)
  have mem: "n \<in> set ?L"
  proof -
    have "n \<in> set KNOWN_WALLET_NAMES" unfolding split by simp
    then show ?thesis by (simp add: KNOWN_WALLET_NAMES_def set_sort_len_reverse)
  qed
  have longest: "length m \<le> length n" if "m \<in> set ?L" and "?P m" for m
  proof -
    have "m \<in> set KNOWN_WALLET_NAMES"
      using that(1) by (simp add: KNOWN_WALLET_NAMES_def set_sort_len_reverse)
    then have "m \<in> set (pre @ n # post)" unfolding split .
    with pre that(2) have "m = n \<or> m \<in> set post" by auto
    then show ?thesis
      using sort_len_reverse_descending [of ?L pre n post m] split
      by (auto simp: KNOWN_WALLET_NAMES_def)
  qed
  have first: "find (\<lambda>m. ?P m \<and> length m = length n) ?L = Some n"
  proof -
    have "find (\<lambda>m. ?P m \<and> length m = length n) ?L
        = find ?P (filter (\<lambda>m. length m = length n) ?L)"
      by (rule find_conj_filter)
    also have "filter (\<lambda>m. length m = length n) ?L
        = filter (\<lambda>m. length m = length n) (pre @ n # post)"
      using filter_sort_len_reverse [of "length n" ?L] split
      by (simp add: KNOWN_WALLET_NAMES_def)
    also have "find ?P \<dots> = Some n"
      using pre Pn by (simp add: find_append_none)
    finally show ?thesis .
  qed
  from res mem Pn longest first show ?thesis by blast
qed

text \<open>
  The theorem at two labels: the longer of two names wins whatever their order in the
  label, and "Ledger" precedes "Trezor" of the same length in the list.
\<close>

theorem extract_wallet_group_known_name_witness:
  "name_in_label ''Ledger'' ''my ledger + TREZOR one''
   \<and> name_in_label ''Trezor One'' ''my ledger + TREZOR one''
   \<and> extract_wallet_group ''my ledger + TREZOR one'' = Some ''Trezor One''
   \<and> name_in_label ''Trezor'' ''old trezor / ledger''
   \<and> extract_wallet_group ''old trezor / ledger'' = Some ''Ledger''"
proof -
  have a: "name_in_label ''Trezor One'' ''my ledger + TREZOR one''" by code_simp
  have a': "name_in_label ''Ledger'' ''my ledger + TREZOR one''" by code_simp
  have b: "name_in_label ''Trezor'' ''old trezor / ledger''" by code_simp
  have m1: "''Trezor One'' \<in> set KNOWN_WALLET_NAMES_literal"
    by (simp add: KNOWN_WALLET_NAMES_literal_def)
  have m2: "''Trezor'' \<in> set KNOWN_WALLET_NAMES_literal"
    by (simp add: KNOWN_WALLET_NAMES_literal_def)
  from extract_wallet_group_known_name [of "''my ledger + TREZOR one''"] a m1
  obtain n where "extract_wallet_group ''my ledger + TREZOR one'' = Some n" by blast
  moreover have "extract_wallet_group ''my ledger + TREZOR one'' = Some ''Trezor One''"
    by code_simp
  moreover from extract_wallet_group_known_name [of "''old trezor / ledger''"] b m2
  obtain n' where "extract_wallet_group ''old trezor / ledger'' = Some n'" by blast
  moreover have "extract_wallet_group ''old trezor / ledger'' = Some ''Ledger''"
    by code_simp
  ultimately show ?thesis using a a' b by simp
qed

subsection \<open>The patterns accept what the regular expressions accept\<close>

lemma alnum_not_space: "is_alnum_ascii c \<Longrightarrow> \<not> is_space c"
  by (auto simp: is_alnum_ascii_def is_space_def Let_def)

lemma alnum_is_word: "is_alnum_ascii c \<Longrightarrow> is_word c"
  by (auto simp: is_alnum_ascii_def is_word_def Let_def)

lemma word_not_space: "is_word c \<Longrightarrow> \<not> is_space c"
  by (auto simp: is_word_def is_space_def Let_def)

lemma newline_not_word: "\<not> is_word (CHR 0x0A)"
  by (simp add: is_word_def)

lemma takeWhile_run:
  "list_all P xs \<Longrightarrow> (ys = [] \<or> \<not> P (hd ys)) \<Longrightarrow> takeWhile P (xs @ ys) = xs"
  by (induction xs) (auto simp: takeWhile_eq_Nil_iff)

lemma dropWhile_run:
  "list_all P xs \<Longrightarrow> (ys = [] \<or> \<not> P (hd ys)) \<Longrightarrow> dropWhile P (xs @ ys) = ys"
  by (induction xs) (auto simp: dropWhile_eq_self_iff)

lemma word_to_end_iff: "word_to_end s = word_run_to_end s"
proof
  assume a: "word_to_end s"
  let ?w = "takeWhile is_word s"
  from a have ne: "dropWhile is_word s \<noteq> s"
    and e: "dropWhile is_word s = [] \<or> dropWhile is_word s = [CHR 0x0A]"
    by (auto simp: word_to_end_def Let_def)
  have s: "s = ?w @ dropWhile is_word s" by simp
  from ne have "?w \<noteq> []"
    by (metis s append_Nil)
  moreover have "list_all is_word ?w"
    by (simp add: list_all_iff) (meson set_takeWhileD)
  moreover from e s have "s = ?w \<or> s = ?w @ [CHR 0x0A]"
    by (metis append_Nil2)
  ultimately show "word_run_to_end s"
    unfolding word_run_to_end_def by blast
next
  assume "word_run_to_end s"
  then obtain w where w: "w \<noteq> []" "list_all is_word w" "s = w \<or> s = w @ [CHR 0x0A]"
    unfolding word_run_to_end_def by blast
  from w(3) show "word_to_end s"
  proof
    assume "s = w"
    moreover have "dropWhile is_word w = []"
      using w(2) by (simp add: list_all_iff)
    ultimately show ?thesis
      using w(1) by (simp add: word_to_end_def del: dropWhile_eq_Nil_conv)
  next
    assume "s = w @ [CHR 0x0A]"
    moreover have "dropWhile is_word (w @ [CHR 0x0A]) = [CHR 0x0A]"
      using w(2) newline_not_word by (intro dropWhile_run) auto
    ultimately show ?thesis
      using w(1) by (simp add: word_to_end_def)
  qed
qed

lemma match_token_iff:
  assumes rest: "\<And>r. rest r \<Longrightarrow> r \<noteq> [] \<and> \<not> is_space (hd r)"
  shows "(match_token rest label = Some tok) = token_then rest label tok"
proof
  assume m: "match_token rest label = Some tok"
  let ?t = "takeWhile is_alnum_ascii label"
  let ?a = "dropWhile is_alnum_ascii label"
  let ?ws = "takeWhile is_space ?a"
  let ?r = "dropWhile is_space ?a"
  from m have tok: "tok = ?t" and ne: "?t \<noteq> []" and ws: "?r \<noteq> ?a" and r: "rest ?r"
    by (auto simp: match_token_def Let_def split: if_splits)
  have "label = ?t @ ?ws @ ?r" by simp
  moreover have "list_all is_alnum_ascii ?t"
    by (simp add: list_all_iff) (meson set_takeWhileD)
  moreover have "list_all is_space ?ws"
    by (simp add: list_all_iff) (meson set_takeWhileD)
  moreover have "?ws \<noteq> []"
    using ws by (metis append_Nil takeWhile_dropWhile_id)
  ultimately show "token_then rest label tok"
    unfolding token_then_def using tok ne r by blast
next
  assume "token_then rest label tok"
  then obtain ws r where d: "label = tok @ ws @ r" "tok \<noteq> []" "list_all is_alnum_ascii tok"
      "ws \<noteq> []" "list_all is_space ws" "rest r"
    unfolding token_then_def by blast
  from d(4,5) have h: "\<not> is_alnum_ascii (hd (ws @ r))"
    by (cases ws) (auto dest: alnum_not_space)
  have t: "takeWhile is_alnum_ascii label = tok"
    unfolding d(1) using d(3) h by (intro takeWhile_run) auto
  have a: "dropWhile is_alnum_ascii label = ws @ r"
    unfolding d(1) using d(3) h by (intro dropWhile_run) auto
  have r: "dropWhile is_space (ws @ r) = r"
    using d(5) rest [OF d(6)] by (intro dropWhile_run) auto
  from d(4) have "r \<noteq> ws @ r" by simp
  with t a r d(2,6) show "match_token rest label = Some tok"
    by (simp add: match_token_def)
qed

lemma prefix_not_space:
  "p \<noteq> [] \<Longrightarrow> \<not> is_space (hd p) \<Longrightarrow> prefix p r \<Longrightarrow> r \<noteq> [] \<and> \<not> is_space (hd r)"
  by (cases p; cases r) auto

lemma word_to_end_not_space: "word_to_end r \<Longrightarrow> r \<noteq> [] \<and> \<not> is_space (hd r)"
  by (cases r) (auto simp: word_to_end_def Let_def dest: word_not_space split: if_splits)

lemma match_wallet_iff:
  "(match_token (prefix ''Wallet'') label = Some tok) = token_then (prefix ''Wallet'') label tok"
  by (rule match_token_iff, rule prefix_not_space [of "''Wallet''"]) (simp_all add: is_space_def)

lemma match_exchange_iff:
  "(match_token (prefix ''Exchange'') label = Some tok) = token_then (prefix ''Exchange'') label tok"
  by (rule match_token_iff, rule prefix_not_space [of "''Exchange''"]) (simp_all add: is_space_def)

lemma match_two_words_iff:
  "(match_token word_to_end label = Some tok) = token_then word_run_to_end label tok"
proof -
  have "(match_token word_to_end label = Some tok) = token_then word_to_end label tok"
    by (rule match_token_iff) (rule word_to_end_not_space)
  moreover have "word_to_end = word_run_to_end"
    by (rule ext) (rule word_to_end_iff)
  ultimately show ?thesis by simp
qed

subsection \<open>Labels without a reference name\<close>

lemma known_name_in_literal:
  "known_name_in label = (\<exists>n\<in>set KNOWN_WALLET_NAMES_literal. name_in_label n label)"
  by (simp add: known_name_in_def list_ex_iff KNOWN_WALLET_NAMES_def set_sort_len_reverse)

lemma extract_wallet_group_unknown:
  assumes "\<not> known_name_in label"
  shows "extract_wallet_group label = first_match patterns label"
proof -
  have "find (\<lambda>wallet_name. str_in (lower wallet_name) (lower label)) KNOWN_WALLET_NAMES = None"
    using assms by (simp add: known_name_in_def list_ex_iff find_None_iff_set name_in_label_def)
  then show ?thesis by (simp add: extract_wallet_group_def)
qed

lemma token_then_unique:
  assumes "token_then rest label t" and "token_then rest' label t'"
  shows "t = t'"
proof -
  have tk: "takeWhile is_alnum_ascii label = t" if "token_then r label t" for r t
  proof -
    from that obtain ws s where d: "label = t @ ws @ s" "list_all is_alnum_ascii t"
        "ws \<noteq> []" "list_all is_space ws"
      unfolding token_then_def by blast
    from d(3,4) have "\<not> is_alnum_ascii (hd (ws @ s))"
      by (cases ws) (auto dest: alnum_not_space)
    then show ?thesis
      unfolding d(1) using d(2) by (intro takeWhile_run) auto
  qed
  from tk [OF assms(1)] tk [OF assms(2)] show ?thesis by simp
qed

lemma first_match_patterns:
  "first_match patterns label =
     (case match_token (prefix ''Wallet'') label of Some g \<Rightarrow> Some g
      | None \<Rightarrow> (case match_token (prefix ''Exchange'') label of Some g \<Rightarrow> Some g
      | None \<Rightarrow> match_token word_to_end label))"
  by (simp add: patterns_def split: option.splits)

text \<open>
  C5, as the code has it. In a label without a reference name the three patterns are
  tried in order, each anchored at the start of the label: a leading token of ASCII
  letters and digits, white space, and then (a) a remainder that starts with "Wallet",
  (b) a remainder that starts with "Exchange", (c) a remainder that is one run of word
  characters (letters, digits, underscore) up to the end of the label or up to a final
  newline. The result is the leading token of the first pattern that matches, and None
  if none matches; the empty label has no match.
\<close>

theorem extract_wallet_group_patterns:
  assumes "\<not> known_name_in label"
  shows "(token_then (prefix ''Wallet'') label tok \<longrightarrow> extract_wallet_group label = Some tok)
       \<and> (\<not> (\<exists>t. token_then (prefix ''Wallet'') label t)
            \<and> token_then (prefix ''Exchange'') label tok \<longrightarrow> extract_wallet_group label = Some tok)
       \<and> (\<not> (\<exists>t. token_then (prefix ''Wallet'') label t)
            \<and> \<not> (\<exists>t. token_then (prefix ''Exchange'') label t)
            \<and> token_then word_run_to_end label tok \<longrightarrow> extract_wallet_group label = Some tok)
       \<and> (\<not> (\<exists>t. token_then (prefix ''Wallet'') label t)
            \<and> \<not> (\<exists>t. token_then (prefix ''Exchange'') label t)
            \<and> \<not> (\<exists>t. token_then word_run_to_end label t) \<longrightarrow> extract_wallet_group label = None)
       \<and> extract_wallet_group [] = None"
proof -
  have e: "extract_wallet_group label = first_match patterns label"
    using assms by (rule extract_wallet_group_unknown)
  have a: "match_token (prefix ''Wallet'') label = None
      \<longleftrightarrow> \<not> (\<exists>t. token_then (prefix ''Wallet'') label t)"
    using match_wallet_iff [of label] by (cases "match_token (prefix ''Wallet'') label") auto
  have b: "match_token (prefix ''Exchange'') label = None
      \<longleftrightarrow> \<not> (\<exists>t. token_then (prefix ''Exchange'') label t)"
    using match_exchange_iff [of label] by (cases "match_token (prefix ''Exchange'') label") auto
  have c: "match_token word_to_end label = None
      \<longleftrightarrow> \<not> (\<exists>t. token_then word_run_to_end label t)"
    using match_two_words_iff [of label] by (cases "match_token word_to_end label") auto
  have 1: "extract_wallet_group label = Some tok" if "token_then (prefix ''Wallet'') label tok"
    using that e by (simp add: first_match_patterns match_wallet_iff [symmetric])
  have 2: "extract_wallet_group label = Some tok"
    if "\<not> (\<exists>t. token_then (prefix ''Wallet'') label t)" "token_then (prefix ''Exchange'') label tok"
    using that e a by (simp add: first_match_patterns match_exchange_iff [symmetric])
  have 3: "extract_wallet_group label = Some tok"
    if "\<not> (\<exists>t. token_then (prefix ''Wallet'') label t)"
       "\<not> (\<exists>t. token_then (prefix ''Exchange'') label t)" "token_then word_run_to_end label tok"
    using that e a b by (simp add: first_match_patterns match_two_words_iff [symmetric])
  have 4: "extract_wallet_group label = None"
    if "\<not> (\<exists>t. token_then (prefix ''Wallet'') label t)"
       "\<not> (\<exists>t. token_then (prefix ''Exchange'') label t)"
       "\<not> (\<exists>t. token_then word_run_to_end label t)"
    using that e a b c by (simp add: first_match_patterns)
  have 5: "extract_wallet_group [] = None" by code_simp
  from 1 2 3 4 5 show ?thesis by blast
qed

theorem extract_wallet_group_patterns_witness:
  "\<not> known_name_in ''Xyzzy Wallet''
   \<and> token_then (prefix ''Wallet'') ''Xyzzy Wallet'' ''Xyzzy''
   \<and> extract_wallet_group ''Xyzzy Wallet'' = Some ''Xyzzy''
   \<and> \<not> known_name_in ''Foo Exchange''
   \<and> token_then (prefix ''Exchange'') ''Foo Exchange'' ''Foo''
   \<and> extract_wallet_group ''Foo Exchange'' = Some ''Foo''
   \<and> \<not> known_name_in ''vault 2''
   \<and> token_then word_run_to_end ''vault 2'' ''vault''
   \<and> extract_wallet_group ''vault 2'' = Some ''vault''
   \<and> \<not> known_name_in ''randomlabel''
   \<and> extract_wallet_group ''randomlabel'' = None"
proof -
  have no_wallet: "\<not> (\<exists>t. token_then (prefix ''Wallet'') l t)"
    if "match_token (prefix ''Wallet'') l = None" for l
    using that by (simp add: match_wallet_iff [symmetric])
  have no_exchange: "\<not> (\<exists>t. token_then (prefix ''Exchange'') l t)"
    if "match_token (prefix ''Exchange'') l = None" for l
    using that by (simp add: match_exchange_iff [symmetric])
  have no_words: "\<not> (\<exists>t. token_then word_run_to_end l t)"
    if "match_token word_to_end l = None" for l
    using that by (simp add: match_two_words_iff [symmetric])
  have h1: "\<not> known_name_in ''Xyzzy Wallet''" by code_simp
  have "match_token (prefix ''Wallet'') ''Xyzzy Wallet'' = Some ''Xyzzy''" by code_simp
  then have t1: "token_then (prefix ''Wallet'') ''Xyzzy Wallet'' ''Xyzzy''"
    by (simp add: match_wallet_iff)
  from extract_wallet_group_patterns [OF h1, of "''Xyzzy''"] t1
  have 1: "extract_wallet_group ''Xyzzy Wallet'' = Some ''Xyzzy''" by blast
  have h2: "\<not> known_name_in ''Foo Exchange''" by code_simp
  have "match_token (prefix ''Exchange'') ''Foo Exchange'' = Some ''Foo''" by code_simp
  then have t2: "token_then (prefix ''Exchange'') ''Foo Exchange'' ''Foo''"
    by (simp add: match_exchange_iff)
  have "match_token (prefix ''Wallet'') ''Foo Exchange'' = None" by code_simp
  note n2 = no_wallet [OF this]
  from extract_wallet_group_patterns [OF h2, of "''Foo''"] t2 n2
  have 2: "extract_wallet_group ''Foo Exchange'' = Some ''Foo''" by blast
  have h3: "\<not> known_name_in ''vault 2''" by code_simp
  have "match_token word_to_end ''vault 2'' = Some ''vault''" by code_simp
  then have t3: "token_then word_run_to_end ''vault 2'' ''vault''"
    by (simp add: match_two_words_iff)
  have "match_token (prefix ''Wallet'') ''vault 2'' = None" by code_simp
  note n3 = no_wallet [OF this]
  have "match_token (prefix ''Exchange'') ''vault 2'' = None" by code_simp
  note n3' = no_exchange [OF this]
  from extract_wallet_group_patterns [OF h3, of "''vault''"] t3 n3 n3'
  have 3: "extract_wallet_group ''vault 2'' = Some ''vault''" by blast
  have h4: "\<not> known_name_in ''randomlabel''" by code_simp
  have "match_token (prefix ''Wallet'') ''randomlabel'' = None" by code_simp
  note n4 = no_wallet [OF this]
  have "match_token (prefix ''Exchange'') ''randomlabel'' = None" by code_simp
  note n4' = no_exchange [OF this]
  have "match_token word_to_end ''randomlabel'' = None" by code_simp
  note n4'' = no_words [OF this]
  from extract_wallet_group_patterns [OF h4] n4 n4' n4''
  have 4: "extract_wallet_group ''randomlabel'' = None" by blast
  from h1 t1 1 h2 t2 2 h3 t3 3 h4 4 show ?thesis by blast
qed

text \<open>
  The third pattern is not "any two whitespace-separated tokens": a label of exactly two
  tokens whose first token holds a hyphen has no reference name in it and is not
  classified.
\<close>

theorem two_tokens_counterexample:
  "\<not> known_name_in ''cold-card btc''
   \<and> whitespace_tokens ''cold-card btc'' = [''cold-card'', ''btc'']
   \<and> extract_wallet_group ''cold-card btc'' = None"
  by code_simp

section \<open>Properties of the grouping engine\<close>

subsection \<open>What the classifier can return\<close>

lemma find_Some_set: "find P xs = Some x \<Longrightarrow> x \<in> set xs"
  by (induction xs) (auto split: if_splits)

lemma first_match_patterns_token:
  assumes "first_match patterns l = Some g"
  shows "g \<noteq> [] \<and> list_all is_alnum_ascii g"
proof -
  from assms obtain rest where "match_token rest l = Some g"
    by (auto simp: first_match_patterns split: option.splits)
  then have "g = takeWhile is_alnum_ascii l" and "g \<noteq> []"
    by (auto simp: match_token_def Let_def split: if_splits)
  moreover have "list_all is_alnum_ascii (takeWhile is_alnum_ascii l)"
    by (simp add: list_all_iff) (meson set_takeWhileD)
  ultimately show ?thesis by simp
qed

lemma extract_wallet_group_cases:
  assumes "extract_wallet_group l = Some g"
  shows "g \<in> set KNOWN_WALLET_NAMES_literal \<or> (g \<noteq> [] \<and> list_all is_alnum_ascii g)"
proof (cases "find (\<lambda>wallet_name. str_in (lower wallet_name) (lower l)) KNOWN_WALLET_NAMES")
  case None
  with assms have "first_match patterns l = Some g"
    by (simp add: extract_wallet_group_def)
  then show ?thesis by (simp add: first_match_patterns_token)
next
  case (Some n)
  with assms have "n = g" by (simp add: extract_wallet_group_def)
  with Some have "g \<in> set KNOWN_WALLET_NAMES"
    by (simp add: find_Some_set)
  then show ?thesis by (simp add: KNOWN_WALLET_NAMES_def set_sort_len_reverse)
qed

lemma literal_names_nonempty: "[] \<notin> set KNOWN_WALLET_NAMES_literal"
  by (simp add: KNOWN_WALLET_NAMES_literal_def)

lemma literal_names_not_ungrouped: "''_ungrouped'' \<notin> set KNOWN_WALLET_NAMES_literal"
  by (simp add: KNOWN_WALLET_NAMES_literal_def)

lemma underscore_not_alnum: "\<not> list_all is_alnum_ascii ''_ungrouped''"
  by (simp add: is_alnum_ascii_def)

lemma extract_wallet_group_nonempty: "extract_wallet_group l \<noteq> Some []"
  using extract_wallet_group_cases [of l "[]"] literal_names_nonempty by auto

lemma extract_wallet_group_not_ungrouped: "extract_wallet_group l \<noteq> Some ''_ungrouped''"
  using extract_wallet_group_cases [of l "''_ungrouped''"] literal_names_not_ungrouped
    underscore_not_alnum by blast

subsection \<open>The dictionary operations\<close>

lemma map_of_dict_append:
  "map_of (dict_append d k v)
     = (map_of d)(k \<mapsto> (case map_of d k of None \<Rightarrow> [] | Some vs \<Rightarrow> vs) @ [v])"
  by (induction d k v rule: dict_append.induct) (auto simp: fun_eq_iff)

lemma keys_dict_append: "set (map fst (dict_append d k v)) = insert k (set (map fst d))"
  by (induction d k v rule: dict_append.induct) auto

lemma distinct_dict_append:
  "distinct (map fst d) \<Longrightarrow> distinct (map fst (dict_append d k v))"
proof (induction d k v rule: dict_append.induct)
  case (1 k v)
  then show ?case by simp
next
  case (2 k' vs d k v)
  then show ?case
    using keys_dict_append [of d k v] by auto
qed

lemma mset_dict_append:
  "mset (concat (map snd (dict_append d k v))) = mset (concat (map snd d)) + {#v#}"
  by (induction d k v rule: dict_append.induct) auto

lemma dict_set_fresh: "k \<notin> set (map fst d) \<Longrightarrow> dict_set d k v = d @ [(k, v)]"
  by (induction d k v rule: dict_set.induct) auto

subsection \<open>The loop\<close>

lemma group_loop_step:
  "group_loop (w # ws) (groups, ungrouped) =
     (case extract_wallet_group (w_label w) of
        Some g \<Rightarrow> group_loop ws (dict_append groups g w, ungrouped)
      | None \<Rightarrow> group_loop ws (groups, ungrouped @ [w]))"
  using extract_wallet_group_nonempty [of "w_label w"] by (auto split: option.splits)

lemma group_loop_ungrouped:
  "snd (group_loop ws (groups, ungrouped)) = ungrouped @ filter unclassified ws"
proof (induction ws arbitrary: groups ungrouped)
  case Nil
  then show ?case by simp
next
  case (Cons w ws)
  show ?case
    unfolding group_loop_step
    by (cases "extract_wallet_group (w_label w)") (simp_all add: Cons.IH unclassified_def)
qed

lemma group_loop_mset:
  "mset (concat (map snd (fst (group_loop ws (groups, ungrouped)))))
     + mset (snd (group_loop ws (groups, ungrouped)))
   = mset (concat (map snd groups)) + mset ungrouped + mset ws"
proof (induction ws arbitrary: groups ungrouped)
  case Nil
  then show ?case by simp
next
  case (Cons w ws)
  show ?case
    unfolding group_loop_step
    by (cases "extract_wallet_group (w_label w)") (simp_all add: Cons.IH mset_dict_append)
qed

lemma group_loop_distinct:
  "distinct (map fst groups) \<Longrightarrow> distinct (map fst (fst (group_loop ws (groups, ungrouped))))"
proof (induction ws arbitrary: groups ungrouped)
  case Nil
  then show ?case by simp
next
  case (Cons w ws)
  show ?case
    unfolding group_loop_step
    by (cases "extract_wallet_group (w_label w)")
      (simp_all add: Cons.IH Cons.prems distinct_dict_append)
qed

lemma group_loop_bucket:
  "map_of (fst (group_loop ws (groups, ungrouped))) k =
     (let b = filter (\<lambda>w. extract_wallet_group (w_label w) = Some k) ws
      in case map_of groups k of
           None \<Rightarrow> if b = [] then None else Some b
         | Some b0 \<Rightarrow> Some (b0 @ b))"
proof (induction ws arbitrary: groups ungrouped)
  case Nil
  then show ?case by (simp split: option.splits)
next
  case (Cons w ws)
  show ?case
  proof (cases "extract_wallet_group (w_label w)")
    case None
    then show ?thesis
      unfolding group_loop_step by (simp add: Cons.IH)
  next
    case (Some g)
    then show ?thesis
      unfolding group_loop_step
      by (simp add: Cons.IH map_of_dict_append Let_def split: option.splits)
  qed
qed

subsection \<open>The result\<close>

lemma group_loop_no_ungrouped_key:
  "''_ungrouped'' \<notin> set (map fst (fst (group_loop ws ([], []))))"
proof -
  have "filter (\<lambda>w. extract_wallet_group (w_label w) = Some ''_ungrouped'') ws = []"
    by (simp add: extract_wallet_group_not_ungrouped)
  then have "map_of (fst (group_loop ws ([], []))) ''_ungrouped'' = None"
    by (simp add: group_loop_bucket)
  then show ?thesis by (simp add: map_of_eq_None_iff)
qed

lemma group_wallets_by_name_eq:
  "group_wallets_by_name ws =
     (if filter unclassified ws \<noteq> []
      then fst (group_loop ws ([], [])) @ [(''_ungrouped'', filter unclassified ws)]
      else fst (group_loop ws ([], [])))"
proof -
  have "snd (group_loop ws ([], [])) = filter unclassified ws"
    by (simp add: group_loop_ungrouped)
  then show ?thesis
    using group_loop_no_ungrouped_key [of ws]
    by (simp add: group_wallets_by_name_def case_prod_unfold dict_set_fresh)
qed

lemma group_wallets_by_name_distinct: "distinct (map fst (group_wallets_by_name ws))"
  using group_loop_distinct [of "[]" ws "[]"] group_loop_no_ungrouped_key [of ws]
  by (simp add: group_wallets_by_name_eq)

lemma group_wallets_by_name_ungrouped:
  "map_of (group_wallets_by_name ws) ''_ungrouped'' =
     (if filter unclassified ws = [] then None else Some (filter unclassified ws))"
proof -
  have "map_of (fst (group_loop ws ([], []))) ''_ungrouped'' = None"
    using group_loop_no_ungrouped_key [of ws] by (simp add: map_of_eq_None_iff)
  then show ?thesis
    by (simp add: group_wallets_by_name_eq map_add_def)
qed

lemma group_wallets_by_name_bucket:
  assumes "(k, b) \<in> set (group_wallets_by_name ws)"
  shows "b \<noteq> [] \<and>
     b = (if k = ''_ungrouped'' then filter unclassified ws
          else filter (\<lambda>w. extract_wallet_group (w_label w) = Some k) ws)"
proof -
  let ?G = "fst (group_loop ws ([], []))"
  from assms have "(k, b) \<in> set ?G \<or> (k = ''_ungrouped'' \<and> b = filter unclassified ws \<and> b \<noteq> [])"
    by (auto simp: group_wallets_by_name_eq split: if_splits)
  then show ?thesis
  proof
    assume in_G: "(k, b) \<in> set ?G"
    have "distinct (map fst ?G)"
      using group_loop_distinct [of "[]" ws "[]"] by simp
    with in_G have "map_of ?G k = Some b" by simp
    then have "b = filter (\<lambda>w. extract_wallet_group (w_label w) = Some k) ws \<and> b \<noteq> []"
      by (simp add: group_loop_bucket Let_def split: if_splits)
    moreover from in_G have "k \<noteq> ''_ungrouped''"
      using group_loop_no_ungrouped_key [of ws] by force
    ultimately show ?thesis by auto
  next
    assume "k = ''_ungrouped'' \<and> b = filter unclassified ws \<and> b \<noteq> []"
    then show ?thesis by auto
  qed
qed

text \<open>
  C3. The buckets of \<open>group_wallets_by_name\<close>, taken together as a multiset, are the input
  records, each as often as the input has it; the records of every bucket stand in input
  order; and the bucket \<open>_ungrouped\<close> is there if and only if the label of some record
  classifies to no group. No key has two buckets.
\<close>

theorem group_wallets_by_name_partition:
  "mset (concat (map snd (group_wallets_by_name ws))) = mset ws
   \<and> distinct (map fst (group_wallets_by_name ws))
   \<and> (\<forall>(k, b)\<in>set (group_wallets_by_name ws). subseq b ws)
   \<and> (''_ungrouped'' \<in> set (map fst (group_wallets_by_name ws)) \<longleftrightarrow> (\<exists>w\<in>set ws. unclassified w))"
proof -
  have a: "mset (concat (map snd (group_wallets_by_name ws))) = mset ws"
  proof (cases "filter unclassified ws = []")
    case True
    with group_loop_mset [of ws "[]" "[]"] show ?thesis
      by (simp add: group_wallets_by_name_eq group_loop_ungrouped del: mset_filter)
  next
    case False
    with group_loop_mset [of ws "[]" "[]"] show ?thesis
      by (simp add: group_wallets_by_name_eq group_loop_ungrouped del: mset_filter)
  qed
  have b: "subseq b ws" if "(k, b) \<in> set (group_wallets_by_name ws)" for k b
    using group_wallets_by_name_bucket [OF that] by (simp split: if_splits)
  have c: "''_ungrouped'' \<in> set (map fst (group_wallets_by_name ws)) \<longleftrightarrow> (\<exists>w\<in>set ws. unclassified w)"
    using group_loop_no_ungrouped_key [of ws]
    by (simp add: group_wallets_by_name_eq filter_empty_conv)
  from a b c group_wallets_by_name_distinct [of ws] show ?thesis by blast
qed

text \<open>The theorem at the example: three buckets, the last one for the record that matches
  nothing.\<close>

theorem group_wallets_by_name_partition_witness:
  "mset (concat (map snd (group_wallets_by_name example_wallets))) = mset example_wallets
   \<and> list_all (\<lambda>(k, b). subseq b example_wallets) (group_wallets_by_name example_wallets)
   \<and> map fst (group_wallets_by_name example_wallets) = [''Trust Wallet'', ''Savings'', ''_ungrouped'']
   \<and> list_ex unclassified example_wallets"
proof -
  from group_wallets_by_name_partition [of example_wallets]
  have "mset (concat (map snd (group_wallets_by_name example_wallets))) = mset example_wallets"
    and "list_all (\<lambda>(k, b). subseq b example_wallets) (group_wallets_by_name example_wallets)"
    by (simp_all add: list_all_iff)
  moreover have "map fst (group_wallets_by_name example_wallets)
      = [''Trust Wallet'', ''Savings'', ''_ungrouped'']"
    by code_simp
  moreover have "list_ex unclassified example_wallets"
    by code_simp
  ultimately show ?thesis by simp
qed

text \<open>
  C9. For every label the classifier returns None, a reference name of the list, or a
  non-empty string of ASCII letters and digits; it never returns \<open>_ungrouped\<close> and never
  the empty string. So in the result of \<open>group_wallets_by_name\<close> the bucket
  \<open>_ungrouped\<close> holds the records that classify to no group and no other record.
\<close>

theorem extract_wallet_group_range:
  "(extract_wallet_group l = None
      \<or> (\<exists>n. n \<in> set KNOWN_WALLET_NAMES_literal \<and> extract_wallet_group l = Some n)
      \<or> (\<exists>g. g \<noteq> [] \<and> list_all is_alnum_ascii g \<and> extract_wallet_group l = Some g))
   \<and> extract_wallet_group l \<noteq> Some ''_ungrouped''
   \<and> extract_wallet_group l \<noteq> Some []
   \<and> map_of (group_wallets_by_name ws) ''_ungrouped'' =
       (if filter unclassified ws = [] then None else Some (filter unclassified ws))"
proof -
  have "extract_wallet_group l = None
      \<or> (\<exists>n. n \<in> set KNOWN_WALLET_NAMES_literal \<and> extract_wallet_group l = Some n)
      \<or> (\<exists>g. g \<noteq> [] \<and> list_all is_alnum_ascii g \<and> extract_wallet_group l = Some g)"
  proof (cases "extract_wallet_group l")
    case None
    then show ?thesis by simp
  next
    case (Some g)
    from extract_wallet_group_cases [OF this] Some show ?thesis by auto
  qed
  then show ?thesis
    using extract_wallet_group_not_ungrouped [of l] extract_wallet_group_nonempty [of l]
      group_wallets_by_name_ungrouped [of ws]
    by blast
qed

section \<open>Properties of the aggregation\<close>

subsection \<open>One holding for each wallet, in order\<close>

lemma fetch_balances_fst:
  "fst (fetch_balances rt get ek sk nets ws acc s) =
     foldl (\<lambda>a (w, b). add_wallet rt nets w b a) acc (zip ws (balances rt get ek sk ws s))"
proof (induction ws arbitrary: acc s)
  case Nil
  then show ?case by simp
next
  case (Cons w ws)
  then show ?case by (simp add: case_prod_unfold Let_def)
qed

lemma length_balances: "length (balances rt get ek sk ws s) = length ws"
  by (induction ws arbitrary: s) (simp_all add: case_prod_unfold Let_def)

lemma foldl_add_wallet:
  "length bs = length ws \<Longrightarrow>
   foldl (\<lambda>a (w, b). add_wallet rt nets w b a) acc (zip ws bs) =
     \<lparr>total_usd = foldl (py_add rt) (total_usd acc) (map usd_value bs),
      holdings_list = holdings_list acc @
        map (\<lambda>(w, b). \<lparr>h_network = network_display_of rt nets (w_network w),
               h_amount = native_amount b, h_symbol = token_symbol b, h_usd = usd_value b\<rparr>)
          (zip ws bs),
      wallet_details = wallet_details acc @
        map (\<lambda>(w, b). \<lparr>d_label = w_label w, d_network = network_display_of rt nets (w_network w),
               d_address = w_address w, d_amount = native_amount b, d_symbol = token_symbol b,
               d_usd = usd_value b\<rparr>)
          (zip ws bs)\<rparr>"
proof (induction ws bs arbitrary: acc rule: list_induct2')
  case 1
  then show ?case by simp
next
  case (2 x xs)
  then show ?case by simp
next
  case (3 y ys)
  then show ?case by simp
next
  case (4 w ws b bs)
  then show ?case by (simp add: add_wallet_def Let_def)
qed

lemma aggregate_fst:
  "fst (aggregate rt get ek sk nets ws s) =
     (let bs = balances rt get ek sk ws s
      in \<lparr>total_usd = foldl (py_add rt) (py_num rt ''0'') (map usd_value bs),
          holdings_list =
            map (\<lambda>(w, b). \<lparr>h_network = network_display_of rt nets (w_network w),
                   h_amount = native_amount b, h_symbol = token_symbol b, h_usd = usd_value b\<rparr>)
              (zip ws bs),
          wallet_details =
            map (\<lambda>(w, b). \<lparr>d_label = w_label w,
                   d_network = network_display_of rt nets (w_network w),
                   d_address = w_address w, d_amount = native_amount b,
                   d_symbol = token_symbol b, d_usd = usd_value b\<rparr>)
              (zip ws bs)\<rparr>)"
  by (simp add: aggregate_def fetch_balances_fst foldl_add_wallet length_balances Let_def)

lemma map_zip_fst: "length bs = length ws \<Longrightarrow> map (\<lambda>p. f (fst p)) (zip ws bs) = map f ws"
  by (induction ws bs rule: list_induct2') simp_all

lemma map_zip_snd: "length bs = length ws \<Longrightarrow> map (\<lambda>p. g (snd p)) (zip ws bs) = map g bs"
  by (induction ws bs rule: list_induct2') simp_all

text \<open>
  C4. The aggregation produces one holding and one detail for each selected wallet, in
  the order of the wallets: the holding at a position carries the display name of the
  network of the wallet at that position and the amounts of the balance looked up for
  it, whatever the lookups of the other wallets gave. The total is the running sum of the
  \<open>usd\<close> values of the holdings, from the left, starting at 0.
\<close>

theorem aggregate_holdings:
  "length (holdings_list (fst (aggregate rt get ek sk nets ws s))) = length ws
   \<and> length (wallet_details (fst (aggregate rt get ek sk nets ws s))) = length ws
   \<and> map h_network (holdings_list (fst (aggregate rt get ek sk nets ws s)))
       = map (\<lambda>w. network_display_of rt nets (w_network w)) ws
   \<and> map d_label (wallet_details (fst (aggregate rt get ek sk nets ws s))) = map w_label ws
   \<and> map d_address (wallet_details (fst (aggregate rt get ek sk nets ws s))) = map w_address ws
   \<and> map h_usd (holdings_list (fst (aggregate rt get ek sk nets ws s)))
       = map usd_value (balances rt get ek sk ws s)
   \<and> map h_amount (holdings_list (fst (aggregate rt get ek sk nets ws s)))
       = map native_amount (balances rt get ek sk ws s)
   \<and> total_usd (fst (aggregate rt get ek sk nets ws s))
       = foldl (py_add rt) (py_num rt ''0'')
           (map h_usd (holdings_list (fst (aggregate rt get ek sk nets ws s))))"
proof -
  let ?bs = "balances rt get ek sk ws s"
  let ?r = "fst (aggregate rt get ek sk nets ws s)"
  have len: "length ?bs = length ws" by (rule length_balances)
  note fst_eq = map_zip_fst [OF len]
  note snd_eq = map_zip_snd [OF len]
  have 1: "length (holdings_list ?r) = length ws"
    by (simp add: aggregate_fst Let_def len)
  have 2: "length (wallet_details ?r) = length ws"
    by (simp add: aggregate_fst Let_def len)
  have 3: "map h_network (holdings_list ?r) = map (\<lambda>w. network_display_of rt nets (w_network w)) ws"
    using fst_eq [of "\<lambda>w. network_display_of rt nets (w_network w)"]
    by (simp add: aggregate_fst Let_def case_prod_unfold comp_def)
  have 4: "map d_label (wallet_details ?r) = map w_label ws"
    using fst_eq [of w_label]
    by (simp add: aggregate_fst Let_def case_prod_unfold comp_def)
  have 5: "map d_address (wallet_details ?r) = map w_address ws"
    using fst_eq [of w_address]
    by (simp add: aggregate_fst Let_def case_prod_unfold comp_def)
  have 6: "map h_usd (holdings_list ?r) = map usd_value ?bs"
    using snd_eq [of usd_value]
    by (simp add: aggregate_fst Let_def case_prod_unfold comp_def)
  have 7: "map h_amount (holdings_list ?r) = map native_amount ?bs"
    using snd_eq [of native_amount]
    by (simp add: aggregate_fst Let_def case_prod_unfold comp_def)
  have 8: "total_usd ?r = foldl (py_add rt) (py_num rt ''0'') (map h_usd (holdings_list ?r))"
    unfolding 6 by (simp add: aggregate_fst Let_def)
  from 1 2 3 4 5 6 7 8 show ?thesis by blast
qed

subsection \<open>Deterministic lookups\<close>

lemma get_simple_price_det:
  assumes "deterministic get"
  shows "fst (get_simple_price rt get symbol s) = fst (get_simple_price rt get symbol s')"
proof -
  have d: "fst (get s req) = fst (get s' req)" for req
    using assms unfolding deterministic_def by blast
  show ?thesis
    unfolding get_simple_price_def Let_def case_prod_unfold d [of "\<lparr>req_url = _, req_headers = []\<rparr>"]
    by (simp split: reply.splits option.splits)
qed

lemma fetch_json_det:
  assumes "deterministic get"
  shows "fst (fetch_json get req s) = fst (fetch_json get req s')"
proof -
  have d: "fst (get s req) = fst (get s' req)"
    using assms unfolding deterministic_def by blast
  show ?thesis
    unfolding fetch_json_def Let_def case_prod_unfold d
    by (simp split: reply.splits option.splits)
qed

lemma priced_det:
  assumes "deterministic get"
  shows "fst (priced rt get symbol bal s) = fst (priced rt get symbol bal s')"
  unfolding priced_def Let_def case_prod_unfold
    get_simple_price_det [OF assms, of rt symbol s s']
  by (simp split: option.splits)

lemma fst_if_cong:
  "(c \<Longrightarrow> fst a = fst a') \<Longrightarrow> (\<not> c \<Longrightarrow> fst b = fst b')
    \<Longrightarrow> fst (if c then a else b) = fst (if c then a' else b')"
  by simp

lemma fetched_det:
  assumes "deterministic get"
    and k: "\<And>js s1 s2. fst (k js s1) = fst (k js s2)"
  shows "fst (case fetch_json get req s of
                (Return js, s1) \<Rightarrow> k js s1
              | (Fell_through, s1) \<Rightarrow> (Fell_through, s1)
              | (Exception, s1) \<Rightarrow> (Exception, s1))
       = fst (case fetch_json get req s' of
                (Return js, s1) \<Rightarrow> k js s1
              | (Fell_through, s1) \<Rightarrow> (Fell_through, s1)
              | (Exception, s1) \<Rightarrow> (Exception, s1))"
proof -
  obtain o1 s1 where a: "fetch_json get req s = (o1, s1)"
    by (cases "fetch_json get req s")
  obtain o2 s2 where b: "fetch_json get req s' = (o2, s2)"
    by (cases "fetch_json get req s'")
  have "o2 = o1"
    using fetch_json_det [OF assms(1), of req s s'] a b by simp
  then show ?thesis
    unfolding a b using k [of _ s1 s2] by (simp split: outcome.splits)
qed

lemma balance_try_det:
  assumes "deterministic get"
  shows "fst (balance_try rt get addr net ek sk s) = fst (balance_try rt get addr net ek sk s')"
  unfolding balance_try_def Let_def
  apply (intro fst_if_cong fetched_det [OF assms])
        apply (simp_all split: option.splits)
    apply (auto intro: priced_det [OF assms])
  done

lemma get_wallet_balance_det:
  assumes "deterministic get"
  shows "fst (get_wallet_balance rt get addr net ek sk s)
       = fst (get_wallet_balance rt get addr net ek sk s')"
  using balance_try_det [OF assms, of rt addr net ek sk s s']
  unfolding get_wallet_balance_def
  by (auto split: prod.splits outcome.splits)

lemma balances_det:
  assumes "deterministic get"
  shows "balances rt get ek sk ws s = balances rt get ek sk ws s'"
proof (induction ws arbitrary: s s')
  case Nil
  then show ?case by simp
next
  case (Cons w ws)
  have "fst (get_wallet_balance rt get (w_address w) (w_network w) ek sk s)
      = fst (get_wallet_balance rt get (w_address w) (w_network w) ek sk s')"
    by (rule get_wallet_balance_det [OF assms])
  then show ?case
    using Cons.IH by (simp add: case_prod_unfold Let_def)
qed

text \<open>
  C8. With lookups whose replies do not depend on the state of the world, the
  aggregation over the same wallets gives the same total, the same holdings and the same
  details from whatever state it starts; so a second run, started where the first run has
  left the world, repeats the result of the first.
\<close>

theorem aggregate_deterministic:
  assumes "deterministic get"
  shows "fst (aggregate rt get ek sk nets ws s') = fst (aggregate rt get ek sk nets ws s)
       \<and> fst (aggregate rt get ek sk nets ws (snd (aggregate rt get ek sk nets ws s)))
           = fst (aggregate rt get ek sk nets ws s)"
proof -
  have "fst (aggregate rt get ek sk nets ws t) = fst (aggregate rt get ek sk nets ws s)" for t
    unfolding aggregate_fst balances_det [OF assms, of rt ek sk ws t s] ..
  then show ?thesis by blast
qed

text \<open>The theorem at the example network, whose replies depend on the request only: a run
  that starts after five requests repeats the run that starts at none.\<close>

theorem aggregate_deterministic_witness:
  "deterministic example_session
   \<and> fst (aggregate exact_runtime example_session ''KEY'' [] [] example_wallets 5)
       = fst (aggregate exact_runtime example_session ''KEY'' [] [] example_wallets 0)
   \<and> total_usd (fst (aggregate exact_runtime example_session ''KEY'' [] [] example_wallets 0))
       = 1000"
proof -
  have d: "deterministic example_session"
    by (simp add: deterministic_def example_session_def)
  have "total_usd (fst (aggregate exact_runtime example_session ''KEY'' [] [] example_wallets 0))
      = 1000"
    by code_simp
  with d aggregate_deterministic [OF d, of exact_runtime "''KEY''" "[]" "[]" example_wallets 5 0]
  show ?thesis by blast
qed

subsection \<open>Failed lookups\<close>














section \<open>Properties of the card renderer\<close>

lemma length_holding_rows: "length (holding_rows rt lib fs width y hs) = 4 * length hs"
  by (induction hs arbitrary: y) (simp_all add: case_prod_unfold Let_def)

text \<open>
  C6. The height of the card is the base height 400 and 60 for each holding, also for
  the image that \<open>generate_wallet_image\<close> returns. Without holdings the height is 400
  and the holdings section is the one text "No holdings data", between the header and
  the footer; with holdings it is the heading and four drawing calls for each holding.
\<close>

theorem wallet_card_height:
  "c_height (wallet_card rt (lib :: 'f pil) wallet_name total_value (holdings :: 'n holding list))
       = 400 + int (length holdings) * 60
   \<and> (generate_wallet_image rt lib wallet_name total_value holdings = Some bio
        \<longrightarrow> c_height (bio_image bio) = 400 + int (length holdings) * 60)
   \<and> c_height (wallet_card rt lib wallet_name total_value []) = 400
   \<and> c_ops (wallet_card rt lib wallet_name total_value [])
       = gradient_ops rt 800 400
         @ header_ops rt (load_fonts lib) 800 wallet_name total_value
         @ [Text (40, 220) ''No holdings data'' (Hex ''#94a3b8'') (item_font (load_fonts lib))]
         @ footer_ops (load_fonts lib) 400
   \<and> (holdings \<noteq> []
        \<longrightarrow> holdings_ops rt lib (load_fonts lib) 800 holdings
              = Text (40, 220) ''Holdings'' (Hex ''#94a3b8'') (small_font (load_fonts lib))
                  # holding_rows rt lib (load_fonts lib) 800 260 holdings
            \<and> length (holding_rows rt lib (load_fonts lib) 800 260 holdings)
                = 4 * length holdings)"
proof -
  have h: "c_height (wallet_card rt lib wallet_name total_value hs) = 400 + int (length hs) * 60"
    for hs :: "'n holding list"
    by (simp add: wallet_card_def Let_def)
  have g: "c_height (bio_image bio) = 400 + int (length holdings) * 60"
    if "generate_wallet_image rt lib wallet_name total_value holdings = Some bio"
    using that h [of holdings]
    by (auto simp: generate_wallet_image_def Let_def split: if_splits)
  have e: "c_ops (wallet_card rt lib wallet_name total_value [])
       = gradient_ops rt 800 400
         @ header_ops rt (load_fonts lib) 800 wallet_name total_value
         @ [Text (40, 220) ''No holdings data'' (Hex ''#94a3b8'') (item_font (load_fonts lib))]
         @ footer_ops (load_fonts lib) 400"
    by (simp add: wallet_card_def holdings_ops_def Let_def)
  have r: "holdings_ops rt lib (load_fonts lib) 800 holdings
              = Text (40, 220) ''Holdings'' (Hex ''#94a3b8'') (small_font (load_fonts lib))
                  # holding_rows rt lib (load_fonts lib) 800 260 holdings"
    if "holdings \<noteq> []"
    using that by (simp add: holdings_ops_def Let_def)
  from h [of holdings] h [of "[]"] g e r length_holding_rows [of rt lib "load_fonts lib" 800 260 holdings]
  show ?thesis by simp
qed

text \<open>The theorem at the example: four holdings give a card of height 640, with the
  heading and sixteen drawing calls in its holdings section.\<close>

theorem wallet_card_height_witness:
  "generate_wallet_image exact_runtime example_pil ''Trust Wallet'' 1000
       (holdings_list (fst (aggregate exact_runtime example_session ''KEY'' [] [] example_wallets 0)))
     \<noteq> None
   \<and> c_height (bio_image (the (generate_wallet_image exact_runtime example_pil ''Trust Wallet'' 1000
       (holdings_list (fst (aggregate exact_runtime example_session ''KEY'' [] [] example_wallets 0))))))
     = 640
   \<and> holdings_list (fst (aggregate exact_runtime example_session ''KEY'' [] [] example_wallets 0))
     \<noteq> []
   \<and> length (holdings_ops exact_runtime example_pil (load_fonts example_pil) 800
       (holdings_list (fst (aggregate exact_runtime example_session ''KEY'' [] [] example_wallets 0))))
     = 17"
proof -
  let ?hs = "holdings_list (fst (aggregate exact_runtime example_session ''KEY'' [] [] example_wallets 0))"
  have "length ?hs = length example_wallets"
    by (simp add: aggregate_fst Let_def length_balances)
  then have n: "length ?hs = 4"
    by (simp add: example_wallets_def)
  then have ne: "?hs \<noteq> []" by auto
  have "completes example_pil img" for img
    by (simp add: example_pil_def)
  then obtain bio where b: "generate_wallet_image exact_runtime example_pil ''Trust Wallet'' 1000 ?hs = Some bio"
    by (simp add: generate_wallet_image_def Let_def)
  from wallet_card_height [of exact_runtime example_pil "''Trust Wallet''" 1000 ?hs bio] b n ne
  have "c_height (bio_image bio) = 640"
    and "length (holdings_ops exact_runtime example_pil (load_fonts example_pil) 800 ?hs) = 17"
    by simp_all
  with b ne show ?thesis by simp
qed

section \<open>Properties of the handlers\<close>





text \<open>
  C7. Loading the fonts never raises: when one of the preferred fonts does not load, all
  four fonts are the default font. And when producing the image raises, the handler
  sends no photo and nothing else changes: after the loading message it sends the full
  text report with its keyboard and answers the callback, as it does after the photo
  when there is one.
\<close>

theorem render_failure_isolated:
  "(truetype lib ''/usr/share/fonts/truetype/dejavu/DejaVuSans-Bold.ttf'' 48 = None
      \<or> truetype lib ''/usr/share/fonts/truetype/dejavu/DejaVuSans.ttf'' 32 = None
      \<or> truetype lib ''/usr/share/fonts/truetype/dejavu/DejaVuSans.ttf'' 24 = None
      \<or> truetype lib ''/usr/share/fonts/truetype/dejavu/DejaVuSans.ttf'' 20 = None
      \<longrightarrow> load_fonts lib = \<lparr>title_font = load_default lib, subtitle_font = load_default lib,
                             item_font = load_default lib, small_font = load_default lib\<rparr>)
   \<and> (select_group data wallets = (group_name, selected_wallets, display_name)
        \<and> selected_wallets \<noteq> []
        \<and> fst (aggregate rt get ek sk nets selected_wallets s) = sm
      \<longrightarrow> (generate_wallet_image rt lib display_name (total_usd sm) (holdings_list sm) = None
            \<longrightarrow> fst (cb_wallet_group_details rt lib get data wallets ek sk nets s)
                = [Edit_text (loading_text display_name (length selected_wallets)) None,
                   Edit_text (report_text rt display_name sm) (Some (details_keyboard group_name)),
                   Answer_callback None])
          \<and> (generate_wallet_image rt lib display_name (total_usd sm) (holdings_list sm) = Some bio
            \<longrightarrow> fst (cb_wallet_group_details rt lib get data wallets ek sk nets s)
                = [Edit_text (loading_text display_name (length selected_wallets)) None,
                   Answer_photo bio (photo_caption rt display_name sm),
                   Edit_text (report_text rt display_name sm) (Some (details_keyboard group_name)),
                   Answer_callback None]))"
proof -
  have f: "load_fonts lib = \<lparr>title_font = load_default lib, subtitle_font = load_default lib,
                             item_font = load_default lib, small_font = load_default lib\<rparr>"
    if "truetype lib ''/usr/share/fonts/truetype/dejavu/DejaVuSans-Bold.ttf'' 48 = None
      \<or> truetype lib ''/usr/share/fonts/truetype/dejavu/DejaVuSans.ttf'' 32 = None
      \<or> truetype lib ''/usr/share/fonts/truetype/dejavu/DejaVuSans.ttf'' 24 = None
      \<or> truetype lib ''/usr/share/fonts/truetype/dejavu/DejaVuSans.ttf'' 20 = None"
    using that by (auto simp: load_fonts_def split: option.splits)
  have h: "fst (cb_wallet_group_details rt lib get data wallets ek sk nets s)
      = Edit_text (loading_text display_name (length selected_wallets)) None
        # (case generate_wallet_image rt lib display_name (total_usd sm) (holdings_list sm) of
             Some image_bio \<Rightarrow> [Answer_photo image_bio (photo_caption rt display_name sm)]
           | None \<Rightarrow> [])
        @ [Edit_text (report_text rt display_name sm) (Some (details_keyboard group_name)),
           Answer_callback None]"
    if "select_group data wallets = (group_name, selected_wallets, display_name)"
      "selected_wallets \<noteq> []" "fst (aggregate rt get ek sk nets selected_wallets s) = sm"
    using that
    by (simp add: cb_wallet_group_details_def case_prod_unfold Let_def split: option.splits)
  from f h show ?thesis by simp
qed

text \<open>
  The theorem at the example, for the group "Trust Wallet": with an imaging library that
  raises (and that has no bold font) the handler makes three calls, with the example
  library it makes four, the photo second.
\<close>

theorem render_failure_isolated_witness:
  "truetype broken_pil ''/usr/share/fonts/truetype/dejavu/DejaVuSans-Bold.ttf'' 48 = None
   \<and> title_font (load_fonts broken_pil) = load_default broken_pil
   \<and> generate_wallet_image exact_runtime broken_pil ''Trust Wallet''
        (total_usd (fst (aggregate exact_runtime example_session ''KEY'' [] []
           (take 2 example_wallets) 0)))
        (holdings_list (fst (aggregate exact_runtime example_session ''KEY'' [] []
           (take 2 example_wallets) 0))) = None
   \<and> fst (cb_wallet_group_details exact_runtime broken_pil example_session
        ''wgroup_Trust Wallet'' example_wallets ''KEY'' [] [] 0)
     = [Edit_text (loading_text ''Trust Wallet'' 2) None,
        Edit_text (report_text exact_runtime ''Trust Wallet''
           (fst (aggregate exact_runtime example_session ''KEY'' [] [] (take 2 example_wallets) 0)))
          (Some (details_keyboard ''Trust Wallet'')),
        Answer_callback None]
   \<and> fst (cb_wallet_group_details exact_runtime example_pil example_session
        ''wgroup_Trust Wallet'' example_wallets ''KEY'' [] [] 0)
     = [Edit_text (loading_text ''Trust Wallet'' 2) None,
        Answer_photo
          (the (generate_wallet_image exact_runtime example_pil ''Trust Wallet''
             (total_usd (fst (aggregate exact_runtime example_session ''KEY'' [] []
                (take 2 example_wallets) 0)))
             (holdings_list (fst (aggregate exact_runtime example_session ''KEY'' [] []
                (take 2 example_wallets) 0)))))
          (photo_caption exact_runtime ''Trust Wallet''
             (fst (aggregate exact_runtime example_session ''KEY'' [] [] (take 2 example_wallets) 0))),
        Edit_text (report_text exact_runtime ''Trust Wallet''
           (fst (aggregate exact_runtime example_session ''KEY'' [] [] (take 2 example_wallets) 0)))
          (Some (details_keyboard ''Trust Wallet'')),
        Answer_callback None]"
proof -
  let ?sm = "fst (aggregate exact_runtime example_session ''KEY'' [] [] (take 2 example_wallets) 0)"
  have t: "truetype broken_pil ''/usr/share/fonts/truetype/dejavu/DejaVuSans-Bold.ttf'' 48 = None"
    by (simp add: broken_pil_def example_pil_def)
  have g: "generate_wallet_image exact_runtime broken_pil ''Trust Wallet'' (total_usd ?sm)
      (holdings_list ?sm) = None"
    by (simp add: generate_wallet_image_def broken_pil_def Let_def)
  have "completes example_pil img" for img
    by (simp add: example_pil_def)
  then obtain bio where b: "generate_wallet_image exact_runtime example_pil ''Trust Wallet''
      (total_usd ?sm) (holdings_list ?sm) = Some bio"
    by (simp add: generate_wallet_image_def Let_def)
  have sel: "select_group ''wgroup_Trust Wallet'' example_wallets
      = (''Trust Wallet'', take 2 example_wallets, ''Trust Wallet'')"
    by code_simp
  have ne: "take 2 example_wallets \<noteq> []" and len: "length (take 2 example_wallets) = 2"
    by (simp_all add: example_wallets_def)
  from render_failure_isolated [of broken_pil "''wgroup_Trust Wallet''" example_wallets
      "''Trust Wallet''" "take 2 example_wallets" "''Trust Wallet''" exact_runtime example_session
      "''KEY''" "[]" "[]" 0 ?sm] t g sel ne len
  have 1: "title_font (load_fonts broken_pil) = load_default broken_pil"
    and 2: "fst (cb_wallet_group_details exact_runtime broken_pil example_session
        ''wgroup_Trust Wallet'' example_wallets ''KEY'' [] [] 0)
     = [Edit_text (loading_text ''Trust Wallet'' 2) None,
        Edit_text (report_text exact_runtime ''Trust Wallet'' ?sm)
          (Some (details_keyboard ''Trust Wallet'')),
        Answer_callback None]"
    by simp_all
  from render_failure_isolated [of example_pil "''wgroup_Trust Wallet''" example_wallets
      "''Trust Wallet''" "take 2 example_wallets" "''Trust Wallet''" exact_runtime example_session
      "''KEY''" "[]" "[]" 0 ?sm bio] b sel ne len
  have 3: "fst (cb_wallet_group_details exact_runtime example_pil example_session
        ''wgroup_Trust Wallet'' example_wallets ''KEY'' [] [] 0)
     = [Edit_text (loading_text ''Trust Wallet'' 2) None,
        Answer_photo bio (photo_caption exact_runtime ''Trust Wallet'' ?sm),
        Edit_text (report_text exact_runtime ''Trust Wallet'' ?sm)
          (Some (details_keyboard ''Trust Wallet'')),
        Answer_callback None]"
    by simp
  from t 1 g 2 3 b show ?thesis by simp
qed

end
